theory Spec2Isabelle
  imports Main "HOL-Library.AList"
begin

section \<open>Go string primitives used by api/v3/auth.go\<close>

text \<open>
  A Go string is a sequence of bytes; \<open>string\<close> (a list of \<open>char\<close>) models it. Every
  separator, prefix and rune the program looks for is ASCII, so the byte view and the
  rune view coincide.
\<close>

definition strings_HasPrefix :: "string \<Rightarrow> string \<Rightarrow> bool" where
  "strings_HasPrefix s p = (take (length p) s = p)"

definition strings_HasSuffix :: "string \<Rightarrow> string \<Rightarrow> bool" where
  "strings_HasSuffix s p = (length p \<le> length s \<and> drop (length s - length p) s = p)"

definition strings_ContainsRune :: "string \<Rightarrow> char \<Rightarrow> bool" where
  "strings_ContainsRune s r = (r \<in> set s)"

text \<open>\<open>strings.Contains(s, sub)\<close>: some suffix of \<open>s\<close> starts with \<open>sub\<close>.\<close>

fun strings_Contains :: "string \<Rightarrow> string \<Rightarrow> bool" where
  "strings_Contains [] sub = (sub = [])"
| "strings_Contains (c # cs) sub =
     (if strings_HasPrefix (c # cs) sub then True else strings_Contains cs sub)"

text \<open>
  \<open>strings.Split(s, sep)\<close> for a non-empty separator cuts \<open>s\<close> at the leftmost,
  non-overlapping occurrences of \<open>sep\<close>: \<open>genSplit sep acc s\<close> scans \<open>s\<close> with the piece
  read so far in \<open>acc\<close>. With an empty separator Go explodes the string into its
  characters.
\<close>

fun genSplit :: "string \<Rightarrow> string \<Rightarrow> string \<Rightarrow> string list" where
  "genSplit sep acc [] = [acc]"
| "genSplit sep acc (c # cs) =
     (if sep = [] then genSplit sep (acc @ [c]) cs
      else if strings_HasPrefix (c # cs) sep
           then acc # genSplit sep [] (drop (length sep) (c # cs))
           else genSplit sep (acc @ [c]) cs)"

definition strings_Split :: "string \<Rightarrow> string \<Rightarrow> string list" where
  "strings_Split s sep = (if sep = [] then map (\<lambda>c. [c]) s else genSplit sep [] s)"

section \<open>validateEmailFormat\<close>

text \<open>
  The errors of \<open>validateEmailFormat\<close>, named by kind. In the source they are
  \<open>errors.New("invalid email format")\<close> (\<open>MalformedAddress\<close>),
  \<open>errors.New("email must not contain '+'")\<close> (\<open>CatchAllNotAllowed\<close>),
  \<open>errors.New("email must not end with '.'")\<close> (\<open>TrailingPeriod\<close>) and
  \<open>fmt.Errorf("invalid email host '%s'", host)\<close> (\<open>UnresolvableDomain host\<close>).
  \<open>IndexOutOfRange\<close> is the run-time panic of \<open>parts[1]\<close> on a slice that is too short.
\<close>

datatype email_error =
    MalformedAddress
  | CatchAllNotAllowed
  | TrailingPeriod
  | UnresolvableDomain string
  | IndexOutOfRange

text \<open>
  \<open>net.LookupIP\<close> is a parameter: \<open>None\<close> is a failed lookup, \<open>Some ips\<close> the
  addresses found.
\<close>

definition validateEmailFormat :: "(string \<Rightarrow> 'ip list option) \<Rightarrow> string \<Rightarrow> email_error + unit" where
  "validateEmailFormat LookupIP email =
     (if \<not> strings_ContainsRune email (CHR ''@'') then Inl MalformedAddress
      else case strings_Split email ''@'' of
        account # host # rest \<Rightarrow>
          if strings_ContainsRune account (CHR ''+'') then Inl CatchAllNotAllowed
          else if strings_HasSuffix account ''.'' then Inl TrailingPeriod
          else (case LookupIP host of
                  None \<Rightarrow> Inl (UnresolvableDomain host)
                | Some n \<Rightarrow> if length n = 0 then Inl (UnresolvableDomain host) else Inr ())
      | _ \<Rightarrow> Inl IndexOutOfRange)"

section \<open>Time\<close>

text \<open>
  A \<open>time.Time\<close> is an instant in nanoseconds since the Unix epoch and a
  \<open>time.Duration\<close> a number of nanoseconds, both as unbounded integers (the program
  stays far inside the range of Go's 64-bit representation). \<open>Unix\<close> is \<open>Time.Unix()\<close>, the
  whole seconds since the epoch. \<open>time.Now()\<close> is an input: a function that reads the
  clock \<open>k\<close> times takes the \<open>k\<close> readings as arguments, in the order of the calls.
\<close>

type_synonym time = int

definition Second :: int where
  "Second = 1000000000"

definition Hour :: int where
  "Hour = 3600 * Second"

definition Unix :: "time \<Rightarrow> int" where
  "Unix t = t div Second"

section \<open>The token library (gopkg.in/dgrijalva/jwt-go.v3)\<close>

text \<open>
  The program signs and parses its tokens with jwt-go, which is not part of the
  repository. This section models the parts of the library the program calls, after the
  library's v3 sources.

  A decoded JSON value is a string, a number (the program only reads numbers through
  \<open>int64(...)\<close>, so a number is modelled by that integer), a boolean or null. A JSON
  object (\<open>jwt.MapClaims\<close>, and a token's header) is an association list from keys to
  values, read with \<open>map_of\<close>.
\<close>

datatype claim_value = CString string | CNumber int | CBool bool | CNull

type_synonym MapClaims = "(string \<times> claim_value) list"

datatype hash_alg = SHA256 | SHA384 | SHA512

datatype SigningMethod =
    SigningMethodHMAC hash_alg
  | SigningMethodRSA hash_alg
  | SigningMethodRSAPSS hash_alg
  | SigningMethodECDSA hash_alg
  | SigningMethodNone

fun hashBits :: "hash_alg \<Rightarrow> string" where
  "hashBits SHA256 = ''256''"
| "hashBits SHA384 = ''384''"
| "hashBits SHA512 = ''512''"

fun Alg :: "SigningMethod \<Rightarrow> string" where
  "Alg (SigningMethodHMAC h) = ''HS'' @ hashBits h"
| "Alg (SigningMethodRSA h) = ''RS'' @ hashBits h"
| "Alg (SigningMethodRSAPSS h) = ''PS'' @ hashBits h"
| "Alg (SigningMethodECDSA h) = ''ES'' @ hashBits h"
| "Alg SigningMethodNone = ''none''"

definition signingMethods :: "SigningMethod list" where
  "signingMethods =
     [SigningMethodHMAC SHA256, SigningMethodHMAC SHA384, SigningMethodHMAC SHA512,
      SigningMethodRSA SHA256, SigningMethodRSA SHA384, SigningMethodRSA SHA512,
      SigningMethodRSAPSS SHA256, SigningMethodRSAPSS SHA384, SigningMethodRSAPSS SHA512,
      SigningMethodECDSA SHA256, SigningMethodECDSA SHA384, SigningMethodECDSA SHA512,
      SigningMethodNone]"

text \<open>\<open>jwt.GetSigningMethod(alg)\<close>: the registered method of that name, if any.\<close>

definition GetSigningMethod :: "string \<Rightarrow> SigningMethod option" where
  "GetSigningMethod alg = find (\<lambda>m. Alg m = alg) signingMethods"

text \<open>
  The byte-level codecs are parameters, collected in a record:
  \<^item> \<open>encodeJSON m\<close> is \<open>EncodeSegment(json.Marshal(m))\<close>, one base64url segment;
  \<^item> \<open>decodeJSON seg\<close> is \<open>DecodeSegment\<close> followed by JSON decoding, \<open>None\<close> when either
    fails;
  \<^item> \<open>hmacSegment h key msg\<close> is \<open>EncodeSegment\<close> of the HMAC of \<open>msg\<close> under \<open>key\<close> with
    hash \<open>h\<close>;
  \<^item> \<open>canonicalSegment seg\<close> is \<open>DecodeSegment\<close> followed by \<open>EncodeSegment\<close>: the
    canonical spelling of the bytes that \<open>seg\<close> decodes to, \<open>None\<close> when \<open>seg\<close> does not decode
    (the decoder also takes padded spellings of the same bytes);
  \<^item> \<open>timeString t\<close> is \<open>t.UTC().String()\<close>, the textual rendering of an instant.
\<close>

record jwtlib =
  encodeJSON :: "MapClaims \<Rightarrow> string"
  decodeJSON :: "string \<Rightarrow> MapClaims option"
  hmacSegment :: "hash_alg \<Rightarrow> string \<Rightarrow> string \<Rightarrow> string"
  canonicalSegment :: "string \<Rightarrow> string option"
  timeString :: "time \<Rightarrow> string"

record Token =
  Raw :: string
  Method :: SigningMethod
  Header :: MapClaims
  Claims :: MapClaims
  Signature :: string
  Valid :: bool

text \<open>The bits of \<open>ValidationError.Errors\<close>; a \<open>ValidationError\<close> is the list of the bits set.\<close>

datatype verr =
    ValidationErrorMalformed
  | ValidationErrorUnverifiable
  | ValidationErrorSignatureInvalid
  | ValidationErrorExpired
  | ValidationErrorIssuedAt
  | ValidationErrorNotValidYet

type_synonym ValidationError = "verr list"

datatype sign_error = ErrInvalidKey | NoneSignatureTypeDisallowedError

definition verifyExp :: "int \<Rightarrow> int \<Rightarrow> bool \<Rightarrow> bool" where
  "verifyExp exp now required = (if exp = 0 then \<not> required else now \<le> exp)"

definition verifyIat :: "int \<Rightarrow> int \<Rightarrow> bool \<Rightarrow> bool" where
  "verifyIat iat now required = (if iat = 0 then \<not> required else iat \<le> now)"

definition verifyNbf :: "int \<Rightarrow> int \<Rightarrow> bool \<Rightarrow> bool" where
  "verifyNbf nbf now required = (if nbf = 0 then \<not> required else nbf \<le> now)"

text \<open>
  \<open>MapClaims.VerifyExpiresAt\<close> switches on the dynamic type of \<open>m["exp"]\<close>: a number is
  compared, anything else (a string, or no entry) counts as an absent claim.
\<close>

definition VerifyExpiresAt :: "MapClaims \<Rightarrow> int \<Rightarrow> bool \<Rightarrow> bool" where
  "VerifyExpiresAt m cmp req =
     (case map_of m ''exp'' of
        Some (CNumber exp) \<Rightarrow> verifyExp exp cmp req
      | _ \<Rightarrow> req = False)"

definition VerifyIssuedAt :: "MapClaims \<Rightarrow> int \<Rightarrow> bool \<Rightarrow> bool" where
  "VerifyIssuedAt m cmp req =
     (case map_of m ''iat'' of
        Some (CNumber iat) \<Rightarrow> verifyIat iat cmp req
      | _ \<Rightarrow> req = False)"

definition VerifyNotBefore :: "MapClaims \<Rightarrow> int \<Rightarrow> bool \<Rightarrow> bool" where
  "VerifyNotBefore m cmp req =
     (case map_of m ''nbf'' of
        Some (CNumber nbf) \<Rightarrow> verifyNbf nbf cmp req
      | _ \<Rightarrow> req = False)"

text \<open>
  \<open>MapClaims.Valid()\<close> at the clock reading \<open>t\<close>: the empty list is \<open>nil\<close>, otherwise the
  bits of the error.
\<close>

definition MapClaims_Valid :: "MapClaims \<Rightarrow> time \<Rightarrow> ValidationError" where
  "MapClaims_Valid m t =
     (let now = Unix t in
      (if VerifyExpiresAt m now False then [] else [ValidationErrorExpired]) @
      (if VerifyIssuedAt m now False then [] else [ValidationErrorIssuedAt]) @
      (if VerifyNotBefore m now False then [] else [ValidationErrorNotValidYet]))"

text \<open>
  \<open>SigningMethod.Sign\<close> and \<open>SigningMethod.Verify\<close> with a \<open>[]byte\<close> key, the only kind of
  key the program passes: every method but the HMAC ones refuses the key. The HMAC
  methods sign with the segment of the MAC. To verify, they decode the signature segment
  and compare its bytes with the MAC: the signature verifies when it is the segment of
  the MAC (which decodes to the MAC) or another spelling that decodes to the same bytes.
\<close>

fun Sign :: "jwtlib \<Rightarrow> SigningMethod \<Rightarrow> string \<Rightarrow> string \<Rightarrow> sign_error + string" where
  "Sign lib (SigningMethodHMAC h) signingString key = Inr (hmacSegment lib h key signingString)"
| "Sign lib SigningMethodNone signingString key = Inl NoneSignatureTypeDisallowedError"
| "Sign lib m signingString key = Inl ErrInvalidKey"

fun Verify :: "jwtlib \<Rightarrow> SigningMethod \<Rightarrow> string \<Rightarrow> string \<Rightarrow> string \<Rightarrow> bool" where
  "Verify lib (SigningMethodHMAC h) signingString signature key =
     (signature = hmacSegment lib h key signingString \<or>
      canonicalSegment lib signature = Some (hmacSegment lib h key signingString))"
| "Verify lib m signingString signature key = False"

definition NewWithClaims :: "SigningMethod \<Rightarrow> MapClaims \<Rightarrow> Token" where
  "NewWithClaims method claims =
     \<lparr>Raw = [], Method = method,
      Header = [(''typ'', CString ''JWT''), (''alg'', CString (Alg method))],
      Claims = claims, Signature = [], Valid = False\<rparr>"

definition SigningString :: "jwtlib \<Rightarrow> Token \<Rightarrow> string" where
  "SigningString lib t = encodeJSON lib (Header t) @ ''.'' @ encodeJSON lib (Claims t)"

definition SignedString :: "jwtlib \<Rightarrow> Token \<Rightarrow> string \<Rightarrow> sign_error + string" where
  "SignedString lib t key =
     (case Sign lib (Method t) (SigningString lib t) key of
        Inl e \<Rightarrow> Inl e
      | Inr sig \<Rightarrow> Inr (SigningString lib t @ ''.'' @ sig))"

text \<open>
  \<open>Parser.ParseUnverified\<close>: three dot-separated segments, a JSON header, JSON claims
  and a registered \<open>alg\<close>. It returns the token and its three segments.
\<close>

definition ParseUnverified :: "jwtlib \<Rightarrow> string \<Rightarrow> ValidationError + Token \<times> string \<times> string \<times> string" where
  "ParseUnverified lib tokenString =
     (case strings_Split tokenString ''.'' of
        [p0, p1, p2] \<Rightarrow>
          (case decodeJSON lib p0 of
             None \<Rightarrow> Inl [ValidationErrorMalformed]
           | Some header \<Rightarrow>
               (case decodeJSON lib p1 of
                  None \<Rightarrow> Inl [ValidationErrorMalformed]
                | Some claims \<Rightarrow>
                    (case map_of header ''alg'' of
                       Some (CString method) \<Rightarrow>
                         (case GetSigningMethod method of
                            None \<Rightarrow> Inl [ValidationErrorUnverifiable]
                          | Some m \<Rightarrow>
                              Inr (\<lparr>Raw = tokenString, Method = m, Header = header,
                                    Claims = claims, Signature = [], Valid = False\<rparr>,
                                   p0, p1, p2))
                     | _ \<Rightarrow> Inl [ValidationErrorUnverifiable])))
      | _ \<Rightarrow> Inl [ValidationErrorMalformed])"

text \<open>
  \<open>jwt.Parse(tokenString, keyFunc)\<close>, with the clock reading \<open>t\<close> of the library's own
  claim check. The key function is a closure: it runs on a state \<open>'s\<close> (the variables it
  captures and the stores it calls) and returns a key or an error. The library calls it
  once the token is decoded, then checks the claims, then verifies the signature with
  the key it got; \<open>Valid\<close> is set when neither check raised a bit.
\<close>

definition Parse ::
  "jwtlib \<Rightarrow> time \<Rightarrow> string \<Rightarrow> (Token \<Rightarrow> 's \<Rightarrow> ('e + string) \<times> 's) \<Rightarrow> 's
     \<Rightarrow> (ValidationError + Token) \<times> 's" where
  "Parse lib t tokenString keyFunc s =
     (case ParseUnverified lib tokenString of
        Inl e \<Rightarrow> (Inl e, s)
      | Inr (token, p0, p1, p2) \<Rightarrow>
          (case keyFunc token s of
             (Inl e, s') \<Rightarrow> (Inl [ValidationErrorUnverifiable], s')
           | (Inr key, s') \<Rightarrow>
               (let vErr = MapClaims_Valid (Claims token) t;
                    token' = token\<lparr>Signature := p2\<rparr>;
                    vErr' = (if Verify lib (Method token') (p0 @ ''.'' @ p1) (Signature token') key
                             then vErr else vErr @ [ValidationErrorSignatureInvalid])
                in if vErr' = [] then (Inr (token'\<lparr>Valid := True\<rparr>), s')
                   else (Inl vErr', s'))))"

section \<open>The service and its collaborators\<close>

definition claimUser :: string where
  "claimUser = ''id''"

definition claimChallenge :: string where
  "claimChallenge = ''challenge''"

definition claimOrigAt :: string where
  "claimOrigAt = ''orig_iat''"

definition claimExpiry :: string where
  "claimExpiry = ''exp''"

text \<open>\<open>JWTConfig\<close>; \<open>Timeout\<close> is a \<open>time.Duration\<close>, in nanoseconds.\<close>

record JWTConfig =
  Key :: string
  Realm :: string
  Timeout :: int
  SigningAlgo :: SigningMethod

text \<open>
  \<open>AuthService\<close>, without its handles to the stores, the publisher and the logger: the
  identity store \<open>a.users\<close> is the state the functions below take and return.
\<close>

record AuthService =
  verifyDomain :: string
  jwt :: JWTConfig
  dev :: bool

text \<open>
  Modelled from the spec: the identity store (\<open>userManager\<close>, implemented by
  \<open>models.UserManager\<close> of \<open>github.com/RTradeLtd/database\<close>) and its \<open>models.User\<close> are
  missing from the sources. A user carries the fields the program reads;
  \<open>EmailVerificationToken\<close>, a Go string (the program passes it to \<open>signChallengeToken\<close> and
  compares it with the challenge of a token), is the one-time verification value the store
  reports for the user, the empty string when there is none. \<open>FindByUserName\<close> is the
  lookup-by-username operation (\<open>None\<close> is its error); the store records the names it was
  asked for in \<open>lookups\<close>, in the order of the calls. \<open>ValidateEmailVerificationToken\<close> is
  the consume operation: it fails unless the value is the one the store reports, and then
  marks the value as used: the store no longer reports it, the field is cleared to the
  empty string.
\<close>

record User =
  UserName :: string
  EmailAddress :: string
  EmailEnabled :: bool
  EmailVerificationToken :: string
  AdminAccess :: bool

record UserStore =
  accounts :: "(string \<times> User) list"
  lookups :: "string list"

definition FindByUserName :: "UserStore \<Rightarrow> string \<Rightarrow> User option \<times> UserStore" where
  "FindByUserName db username =
     (map_of (accounts db) username, db\<lparr>lookups := lookups db @ [username]\<rparr>)"

definition ValidateEmailVerificationToken ::
  "UserStore \<Rightarrow> string \<Rightarrow> string \<Rightarrow> User option \<times> UserStore" where
  "ValidateEmailVerificationToken db username token =
     (case map_of (accounts db) username of
        None \<Rightarrow> (None, db)
      | Some u \<Rightarrow>
          if EmailVerificationToken u = token
          then (let u' = u\<lparr>EmailVerificationToken := []\<rparr>
                in (Some u', db\<lparr>accounts := AList.update username u' (accounts db)\<rparr>))
          else (None, db))"

text \<open>
  gRPC status errors: \<open>grpc.Errorf(code, format, ...)\<close> is modelled by its code and its
  format string; the arguments of the format are not rendered.
\<close>

datatype codes =
    InvalidArgument | NotFound | AlreadyExists | PermissionDenied
  | FailedPrecondition | Internal | Unauthenticated

datatype grpc_error = Errorf codes string

text \<open>
  A call's \<open>context.Context\<close>: the incoming metadata (\<open>metadata.FromIncomingContext\<close>, \<open>None\<close>
  when the context has none, otherwise the values of each key), and the two values this
  package attaches to it.
\<close>

record Context =
  incomingMD :: "(string \<times> string list) list option"
  ctxClaims :: "MapClaims option"
  ctxUser :: "User option"

text \<open>
  Modelled from the spec: \<open>ctxSetClaims\<close> and \<open>ctxSetUser\<close> belong to the package but are
  missing from the sources; they attach the validated claims and the resolved identity
  to the call's context.
\<close>

definition ctxSetClaims :: "Context \<Rightarrow> MapClaims option \<Rightarrow> Context" where
  "ctxSetClaims ctx claims = ctx\<lparr>ctxClaims := claims\<rparr>"

definition ctxSetUser :: "Context \<Rightarrow> User option \<Rightarrow> Context" where
  "ctxSetUser ctx user = ctx\<lparr>ctxUser := user\<rparr>"

section \<open>validate\<close>

text \<open>
  The variables the key function of \<open>validate\<close> captures (\<open>claims\<close>, \<open>user\<close>) and the store
  it calls.
\<close>

record validate_vars =
  claims_var :: "MapClaims option"
  user_var :: "User option"
  users :: UserStore

text \<open>
  The function literal \<open>validate\<close> passes to \<open>jwt.Parse\<close>; \<open>now\<close> is the clock reading of
  its \<open>claims.Valid()\<close>. \<open>jwt.Parse\<close> always builds \<open>jwt.MapClaims\<close>, so the type assertion
  on \<open>t.Claims\<close> succeeds.
\<close>

definition validate_keyFunc ::
  "AuthService \<Rightarrow> time \<Rightarrow> Token \<Rightarrow> validate_vars \<Rightarrow> (grpc_error + string) \<times> validate_vars" where
  "validate_keyFunc a now t v =
     (let v1 = v\<lparr>claims_var := Some (Claims t)\<rparr> in
      if MapClaims_Valid (Claims t) now \<noteq> []
      then (Inl (Errorf Unauthenticated ''invalid claims: %s''), v1)
      else (case map_of (Claims t) claimUser of
              Some (CString userID) \<Rightarrow>
                if userID = []
                then (Inl (Errorf Unauthenticated ''invalid user associated with token''), v1)
                else (case FindByUserName (users v1) userID of
                        (None, db) \<Rightarrow>
                          (Inl (Errorf Unauthenticated ''unable to find user associated with token''),
                           v1\<lparr>user_var := None, users := db\<rparr>)
                      | (Some u, db) \<Rightarrow>
                          (Inr (Key (jwt a)), v1\<lparr>user_var := Some u, users := db\<rparr>))
            | _ \<Rightarrow> (Inl (Errorf Unauthenticated ''invalid user associated with token''), v1)))"

text \<open>
  \<open>validate(ctx)\<close> on the store \<open>db\<close>. \<open>now1\<close> is the clock reading inside the key function,
  \<open>now2\<close> the one of the library's claim check.
\<close>

definition validate ::
  "jwtlib \<Rightarrow> AuthService \<Rightarrow> time \<Rightarrow> time \<Rightarrow> Context \<Rightarrow> UserStore
     \<Rightarrow> (grpc_error + Context) \<times> UserStore" where
  "validate lib a now1 now2 ctx db =
     (case incomingMD ctx of
        None \<Rightarrow> (Inl (Errorf Unauthenticated ''missing context metadata''), db)
      | Some meta \<Rightarrow>
          (case map_of meta ''authorization'' of
             None \<Rightarrow> (Inl (Errorf Unauthenticated ''no key provided''), db)
           | Some [] \<Rightarrow> (Inl (Errorf Unauthenticated ''no key provided''), db)
           | Some (bearerString # others) \<Rightarrow>
               (case strings_Split bearerString ''Bearer '' of
                  first # tokenString # rest \<Rightarrow>
                    (case Parse lib now2 tokenString (validate_keyFunc a now1)
                            \<lparr>claims_var = None, user_var = None, users = db\<rparr> of
                       (Inl err, v) \<Rightarrow> (Inl (Errorf Unauthenticated ''invalid key: %v''), users v)
                     | (Inr t, v) \<Rightarrow>
                         if \<not> Valid t
                         then (Inl (Errorf Unauthenticated ''invalid token''), users v)
                         else (Inr (ctxSetUser (ctxSetClaims ctx (claims_var v)) (user_var v)),
                               users v))
                | _ \<Rightarrow> (Inl (Errorf Unauthenticated ''invalid key''), db))))"

section \<open>Token issuance\<close>

text \<open>
  \<open>signAPIToken\<close> reads the clock twice: \<open>now1\<close> for \<open>expire\<close>, \<open>now2\<close> for \<open>orig_iat\<close>. It
  returns \<open>expire\<close> together with the token or the signing error.
\<close>

definition signAPIToken ::
  "jwtlib \<Rightarrow> AuthService \<Rightarrow> time \<Rightarrow> time \<Rightarrow> string \<Rightarrow> int \<times> (sign_error + string)" where
  "signAPIToken lib a now1 now2 user =
     (let expire = Unix (now1 + Timeout (jwt a))
      in (expire,
          SignedString lib
            (NewWithClaims (SigningAlgo (jwt a))
               [(claimUser, CString user),
                (claimExpiry, CNumber expire),
                (claimOrigAt, CNumber (Unix now2))])
            (Key (jwt a))))"

text \<open>\<open>signChallengeToken\<close>: \<open>now1\<close> is the clock reading for \<open>exp\<close>, \<open>now2\<close> for \<open>orig_iat\<close>.\<close>

definition signChallengeToken ::
  "jwtlib \<Rightarrow> AuthService \<Rightarrow> time \<Rightarrow> time \<Rightarrow> string \<Rightarrow> string \<Rightarrow> sign_error + string" where
  "signChallengeToken lib a now1 now2 user challenge =
     SignedString lib
       (NewWithClaims (SigningAlgo (jwt a))
          [(claimUser, CString user),
           (claimChallenge, CString challenge),
           (claimExpiry, CString (timeString lib (now1 + Hour * 24))),
           (claimOrigAt, CNumber (Unix now2))])
       (Key (jwt a))"

section \<open>VerificationHandler\<close>

text \<open>The responses of the HTTP handler, by the constructor of package \<open>res\<close> that builds them.\<close>

datatype http_response =
    MsgOK string
  | ErrBadRequest string
  | ErrUnauthorized string
  | ErrNotFound string
  | ErrInternalServer string

text \<open>
  The key function of \<open>VerificationHandler\<close>: the token's method must be an HMAC method
  and must be the configured one. It captures nothing it changes, so it runs on any state.
\<close>

definition verification_keyFunc :: "AuthService \<Rightarrow> Token \<Rightarrow> 's \<Rightarrow> (string + string) \<times> 's" where
  "verification_keyFunc a token s =
     (case Method token of
        SigningMethodHMAC h \<Rightarrow>
          if SigningMethodHMAC h \<noteq> SigningAlgo (jwt a)
          then (Inl ''expect hs512 signing method'', s)
          else (Inr (Key (jwt a)), s)
      | _ \<Rightarrow> (Inl ''unable to validate signing method: %v'', s))"

text \<open>
  The handler on the query parameters \<open>user\<close> and \<open>token\<close>. \<open>now1\<close> is the clock reading of
  the library's claim check inside \<open>jwt.Parse\<close>, \<open>now2\<close> the one of the handler's own
  \<open>claims.Valid()\<close>.
\<close>

definition VerificationHandler ::
  "jwtlib \<Rightarrow> AuthService \<Rightarrow> time \<Rightarrow> time \<Rightarrow> string \<Rightarrow> string \<Rightarrow> UserStore
     \<Rightarrow> http_response \<times> UserStore" where
  "VerificationHandler lib a now1 now2 user tokenStr db =
     (if user = [] \<or> tokenStr = []
      then (ErrBadRequest ''parameters user, token cannot be empty'', db)
      else (case fst (Parse lib now1 tokenStr (verification_keyFunc a) ()) of
              Inl err \<Rightarrow> (ErrUnauthorized ''invalid token'', db)
            | Inr token \<Rightarrow>
                if \<not> Valid token then (ErrUnauthorized ''invalid token'', db)
                else (case map_of (Claims token) claimUser of
                        Some (CString v) \<Rightarrow>
                          if v \<noteq> user
                          then (ErrBadRequest ''user in token does not match request'', db)
                          else if MapClaims_Valid (Claims token) now2 \<noteq> []
                          then (ErrBadRequest ''invalid claims'', db)
                          else (case FindByUserName db user of
                                  (None, db1) \<Rightarrow> (ErrNotFound ''user not found'', db1)
                                | (Some u, db1) \<Rightarrow>
                                    (case map_of (Claims token) claimChallenge of
                                       Some (CString challenge) \<Rightarrow>
                                         if challenge \<noteq> EmailVerificationToken u
                                         then (ErrBadRequest ''challenge in token is incorrect'', db1)
                                         else (case ValidateEmailVerificationToken db1 user challenge of
                                                 (None, db2) \<Rightarrow>
                                                   (ErrInternalServer ''unable to validate user'', db2)
                                               | (Some u', db2) \<Rightarrow> (MsgOK ''user verified'', db2))
                                     | _ \<Rightarrow> (ErrBadRequest ''challenge in token is incorrect'', db1)))
                      | _ \<Rightarrow> (ErrBadRequest ''user in token does not match request'', db))))"

section \<open>newAuthInterceptors\<close>

text \<open>The map \<open>exclude\<close> built from the exceptions, as an association list.\<close>

definition newExclude :: "string list \<Rightarrow> (string \<times> bool) list" where
  "newExclude exceptions = fold (\<lambda>e exclude. (e, True) # exclude) exceptions []"

text \<open>
  A handler runs on the state of the service: the identity store, and whatever else it
  reads and writes (\<open>'w\<close>). A unary handler returns a response (\<open>None\<close> is a \<open>nil\<close>
  response) or an error; a stream handler returns an error or \<open>nil\<close>. The interceptors take
  \<open>info.FullMethod\<close> and an optional handler (\<open>None\<close> is a \<open>nil\<close> handler), and the two clock
  readings of \<open>validate\<close>.

  With \<open>v, found := exclude[info.FullMethod]\<close>, the test \<open>!v && !found\<close> holds exactly when
  the map has no entry.
\<close>

definition unaryInterceptor ::
  "jwtlib \<Rightarrow> AuthService \<Rightarrow> string list \<Rightarrow> time \<Rightarrow> time
     \<Rightarrow> Context \<Rightarrow> 'req \<Rightarrow> string
     \<Rightarrow> (Context \<Rightarrow> 'req \<Rightarrow> UserStore \<times> 'w \<Rightarrow> (grpc_error + 'resp option) \<times> UserStore \<times> 'w) option
     \<Rightarrow> UserStore \<times> 'w \<Rightarrow> (grpc_error + 'resp option) \<times> UserStore \<times> 'w" where
  "unaryInterceptor lib a exceptions now1 now2 ctx req FullMethod handler st =
     (case map_of (newExclude exceptions) FullMethod of
        None \<Rightarrow>
          (case validate lib a now1 now2 ctx (fst st) of
             (Inl err, db) \<Rightarrow> (Inl err, db, snd st)
           | (Inr ctx', db) \<Rightarrow>
               (case handler of
                  Some h \<Rightarrow> h ctx' req (db, snd st)
                | None \<Rightarrow> (Inr None, db, snd st)))
      | Some v \<Rightarrow>
          (case handler of
             Some h \<Rightarrow> h ctx req st
           | None \<Rightarrow> (Inr None, st)))"

text \<open>
  A server stream is the transport's stream (its context and the rest of it, \<open>'s\<close>) or a
  \<open>grpc_middleware.WrappedServerStream\<close> around a stream, with the context it answers.
\<close>

datatype 's ServerStream =
    TransportStream Context 's
  | WrappedServerStream "'s ServerStream" Context

fun stream_Context :: "'s ServerStream \<Rightarrow> Context" where
  "stream_Context (TransportStream c s) = c"
| "stream_Context (WrappedServerStream inner c) = c"

fun WrapServerStream :: "'s ServerStream \<Rightarrow> 's ServerStream" where
  "WrapServerStream (WrappedServerStream inner c) = WrappedServerStream inner c"
| "WrapServerStream (TransportStream c s) = WrappedServerStream (TransportStream c s) c"

fun setWrappedContext :: "'s ServerStream \<Rightarrow> Context \<Rightarrow> 's ServerStream" where
  "setWrappedContext (WrappedServerStream inner c) ctx = WrappedServerStream inner ctx"
| "setWrappedContext (TransportStream c s) ctx = TransportStream c s"

definition streamInterceptor ::
  "jwtlib \<Rightarrow> AuthService \<Rightarrow> string list \<Rightarrow> time \<Rightarrow> time
     \<Rightarrow> 'srv \<Rightarrow> 's ServerStream \<Rightarrow> string
     \<Rightarrow> ('srv \<Rightarrow> 's ServerStream \<Rightarrow> UserStore \<times> 'w \<Rightarrow> grpc_error option \<times> UserStore \<times> 'w) option
     \<Rightarrow> UserStore \<times> 'w \<Rightarrow> grpc_error option \<times> UserStore \<times> 'w" where
  "streamInterceptor lib a exceptions now1 now2 srv stream FullMethod handler st =
     (case map_of (newExclude exceptions) FullMethod of
        None \<Rightarrow>
          (case validate lib a now1 now2 (stream_Context stream) (fst st) of
             (Inl err, db) \<Rightarrow> (Some err, db, snd st)
           | (Inr ctx, db) \<Rightarrow>
               (let wrapped = setWrappedContext (WrapServerStream stream) ctx
                in case handler of
                     Some h \<Rightarrow> h srv wrapped (db, snd st)
                   | None \<Rightarrow> (None, db, snd st)))
      | Some v \<Rightarrow>
          (case handler of
             Some h \<Rightarrow> h srv stream st
           | None \<Rightarrow> (None, st)))"

section \<open>An example deployment\<close>

text \<open>
  Concrete values for the parameters, used to run the functions above on explicit inputs:
  a codec given by a code book of a few JSON objects and their segments, a MAC that
  spells out its hash, key and message, a segment decoder that drops padding, one user
  \<open>alice\<close> with the active verification value \<open>c0\<close> (in \<open>blank_store\<close>: with the value
  cleared), an HS512 configuration with a timeout of one hour, and a handler that counts
  its invocations.
\<close>

definition example_codebook :: "(MapClaims \<times> string) list" where
  "example_codebook =
     [([(''typ'', CString ''JWT''), (''alg'', CString ''HS512'')], ''h512''),
      ([(''typ'', CString ''JWT''), (''alg'', CString ''HS256'')], ''h256''),
      ([(''id'', CString ''alice''), (''exp'', CNumber 3600), (''orig_iat'', CNumber 0)], ''session''),
      ([(''id'', CString ''alice''), (''exp'', CNumber 3600), (''orig_iat'', CNumber 1)], ''late''),
      ([(''id'', CString ''alice''), (''exp'', CNumber 2), (''orig_iat'', CNumber 0)], ''two''),
      ([(''id'', CString ''alice''), (''exp'', CNumber 1), (''orig_iat'', CNumber 0)], ''one''),
      ([(''id'', CString []), (''exp'', CNumber 3600), (''orig_iat'', CNumber 0)], ''anon''),
      ([(''id'', CString ''alice''), (''challenge'', CString ''c0''),
        (''exp'', CString ''1970-01-02 00:00:00 +0000 UTC''), (''orig_iat'', CNumber 0)],
       ''challenge''),
      ([(''id'', CString ''alice''), (''challenge'', CString []),
        (''exp'', CString ''1970-01-02 00:00:00 +0000 UTC''), (''orig_iat'', CNumber 0)],
       ''blank''),
      ([(''id'', CString ''alice''), (''challenge'', CString ''c0''),
        (''exp'', CNumber 3600), (''orig_iat'', CNumber 0)],
       ''timed'')]"

definition example_lib :: jwtlib where
  "example_lib =
     \<lparr>encodeJSON = (\<lambda>m. case map_of example_codebook m of Some seg \<Rightarrow> seg | None \<Rightarrow> ''?''),
      decodeJSON = (\<lambda>seg. map_of (map (\<lambda>(m, seg). (seg, m)) example_codebook) seg),
      hmacSegment = (\<lambda>h key msg.
        ''mac'' @ hashBits h @ ''-'' @ key @ ''-'' @ filter (\<lambda>c. c \<noteq> CHR ''.'') msg),
      canonicalSegment = (\<lambda>seg. Some (takeWhile (\<lambda>c. c \<noteq> CHR ''='') seg)),
      timeString = (\<lambda>t. if t = 24 * Hour then ''1970-01-02 00:00:00 +0000 UTC'' else ''?'')\<rparr>"

definition example_service :: AuthService where
  "example_service =
     \<lparr>verifyDomain = ''temporal.cloud'',
      jwt = \<lparr>Key = ''secret'', Realm = ''temporal'', Timeout = 3600 * Second,
             SigningAlgo = SigningMethodHMAC SHA512\<rparr>,
      dev = False\<rparr>"

definition example_alice :: User where
  "example_alice =
     \<lparr>UserName = ''alice'', EmailAddress = ''alice@example.org'', EmailEnabled = False,
      EmailVerificationToken = ''c0'', AdminAccess = False\<rparr>"

definition example_store :: UserStore where
  "example_store = \<lparr>accounts = [(''alice'', example_alice)], lookups = []\<rparr>"

definition counting_handler ::
  "Context \<Rightarrow> unit \<Rightarrow> UserStore \<times> nat \<Rightarrow> (grpc_error + unit option) \<times> UserStore \<times> nat" where
  "counting_handler ctx req st = (Inr None, fst st, Suc (snd st))"

definition bearer_context :: "string \<Rightarrow> Context" where
  "bearer_context v =
     \<lparr>incomingMD = Some [(''authorization'', [v])], ctxClaims = None, ctxUser = None\<rparr>"

definition counting_stream_handler ::
  "unit \<Rightarrow> unit ServerStream \<Rightarrow> UserStore \<times> nat \<Rightarrow> grpc_error option \<times> UserStore \<times> nat" where
  "counting_stream_handler srv stream st = (None, fst st, Suc (snd st))"

definition bare_context :: Context where
  "bare_context = \<lparr>incomingMD = None, ctxClaims = None, ctxUser = None\<rparr>"

definition blank_store :: UserStore where
  "blank_store =
     \<lparr>accounts = [(''alice'', example_alice\<lparr>EmailVerificationToken := []\<rparr>)], lookups = []\<rparr>"

definition anon_store :: UserStore where
  "anon_store = \<lparr>accounts = [([], example_alice\<lparr>UserName := []\<rparr>)], lookups = []\<rparr>"

definition short_service :: AuthService where
  "short_service = example_service\<lparr>jwt := (jwt example_service)\<lparr>Timeout := 1500000000\<rparr>\<rparr>"

section \<open>Reading a token back\<close>

text \<open>
  \<open>segment s\<close>: \<open>s\<close> can stand as one segment of a token inside a bearer credential, that
  is, it has no dot and no space (the base64url alphabet has neither).
  \<open>roundtrips lib m\<close>: the codec writes the JSON object \<open>m\<close> as a segment and reads that
  segment back as \<open>m\<close>. \<open>readClaim lib tok k\<close> is the claim \<open>k\<close> as a parser reads it off the
  token string \<open>tok\<close>. \<open>lacksBearer ctx\<close>: the context carries no metadata, or no
  \<open>authorization\<close> value, or a first \<open>authorization\<close> value without the text \<open>Bearer \<close>.
\<close>

definition segment :: "string \<Rightarrow> bool" where
  "segment s = (CHR ''.'' \<notin> set s \<and> CHR '' '' \<notin> set s)"

definition roundtrips :: "jwtlib \<Rightarrow> MapClaims \<Rightarrow> bool" where
  "roundtrips lib m = (segment (encodeJSON lib m) \<and> decodeJSON lib (encodeJSON lib m) = Some m)"

definition readClaim :: "jwtlib \<Rightarrow> string \<Rightarrow> string \<Rightarrow> claim_value option" where
  "readClaim lib tok k =
     (case ParseUnverified lib tok of
        Inl e \<Rightarrow> None
      | Inr (t, parts) \<Rightarrow> map_of (Claims t) k)"

definition lacksBearer :: "Context \<Rightarrow> bool" where
  "lacksBearer ctx =
     (case incomingMD ctx of
        None \<Rightarrow> True
      | Some meta \<Rightarrow>
          (case map_of meta ''authorization'' of
             None \<Rightarrow> True
           | Some [] \<Rightarrow> True
           | Some (v # vs) \<Rightarrow> \<not> strings_Contains v ''Bearer ''))"

text \<open>
  \<open>faithful lib t key\<close>: the codec round-trips the header and the claims of the token \<open>t\<close>,
  and the signature \<open>t\<close> gets under \<open>key\<close> is a segment.
\<close>

definition faithful :: "jwtlib \<Rightarrow> Token \<Rightarrow> string \<Rightarrow> bool" where
  "faithful lib t key =
     (roundtrips lib (Header t) \<and> roundtrips lib (Claims t) \<and>
      (case Sign lib (Method t) (SigningString lib t) key of
         Inl e \<Rightarrow> True
       | Inr sig \<Rightarrow> segment sig))"

section \<open>Facts about the string primitives\<close>

lemma genSplit_singleton:
  "genSplit [a] acc s =
     (if a \<in> set s
      then (acc @ takeWhile (\<lambda>c. c \<noteq> a) s) # genSplit [a] [] (tl (dropWhile (\<lambda>c. c \<noteq> a) s))
      else [acc @ s])"
  by (induction s arbitrary: acc) (auto simp: strings_HasPrefix_def)

lemma genSplit_singleton_hd:
  "\<exists>xs. genSplit [a] acc s = (acc @ takeWhile (\<lambda>c. c \<noteq> a) s) # xs"
proof (cases "a \<in> set s")
  case True
  then show ?thesis by (subst genSplit_singleton) simp
next
  case False
  then have "takeWhile (\<lambda>c. c \<noteq> a) s = s" by (auto simp: takeWhile_eq_all_conv)
  moreover from False have "genSplit [a] acc s = [acc @ s]"
    by (subst genSplit_singleton) simp
  ultimately show ?thesis by metis
qed

lemma HasSuffix_period: "strings_HasSuffix a ''.'' = (a \<noteq> [] \<and> last a = CHR ''.'')"
proof (cases a rule: rev_cases)
  case Nil
  then show ?thesis by (simp add: strings_HasSuffix_def)
next
  case (snoc ys y)
  then show ?thesis by (auto simp: strings_HasSuffix_def)
qed

lemma genSplit_no_sep:
  "sep \<noteq> [] \<Longrightarrow> \<not> strings_Contains s sep \<Longrightarrow> genSplit sep acc s = [acc @ s]"
  by (induction s arbitrary: acc) (auto split: if_splits)

lemma genSplit_at_sep:
  "sep \<noteq> [] \<Longrightarrow> genSplit sep acc (sep @ s) = acc # genSplit sep [] s"
  by (cases sep) (auto simp: strings_HasPrefix_def)

lemma not_Contains_char:
  "c \<in> set sep \<Longrightarrow> c \<notin> set s \<Longrightarrow> \<not> strings_Contains s sep"
proof (induction s)
  case Nil
  then show ?case by auto
next
  case (Cons x xs)
  have "\<not> strings_HasPrefix (x # xs) sep"
  proof
    assume "strings_HasPrefix (x # xs) sep"
    then have "set sep \<subseteq> set (x # xs)"
      unfolding strings_HasPrefix_def by (metis set_take_subset)
    with Cons.prems show False by auto
  qed
  with Cons show ?case by simp
qed

lemma Split_three:
  assumes "CHR ''.'' \<notin> set a" "CHR ''.'' \<notin> set b" "CHR ''.'' \<notin> set c"
  shows "strings_Split (a @ ''.'' @ b @ ''.'' @ c) ''.'' = [a, b, c]"
proof -
  have c: "genSplit ''.'' acc c = [acc @ c]" for acc
    using assms(3) by (simp add: genSplit_no_sep not_Contains_char)
  have step: "genSplit ''.'' acc (x @ ''.'' @ r) = (acc @ x) # genSplit ''.'' [] r"
    if "CHR ''.'' \<notin> set x" for acc x r
    using that by (induction x arbitrary: acc) (auto simp: strings_HasPrefix_def)
  show ?thesis
    unfolding strings_Split_def using step[OF assms(1)] step[OF assms(2)] c by simp
qed

lemma Split_Bearer:
  assumes "CHR '' '' \<notin> set tok"
  shows "strings_Split (''Bearer '' @ tok) ''Bearer '' = [[], tok]"
proof -
  have "\<not> strings_Contains tok ''Bearer ''"
    using assms by (intro not_Contains_char[of "CHR '' ''"]) auto
  then have "genSplit ''Bearer '' [] tok = [tok]"
    by (simp add: genSplit_no_sep)
  then show ?thesis
    unfolding strings_Split_def using genSplit_at_sep[of "''Bearer ''" "[]" tok] by simp
qed

lemma Split_no_sep:
  "sep \<noteq> [] \<Longrightarrow> \<not> strings_Contains s sep \<Longrightarrow> strings_Split s sep = [s]"
  by (simp add: strings_Split_def genSplit_no_sep)

section \<open>Facts about the library and the exemption map\<close>

lemma map_of_fold_exclude:
  "map_of (fold (\<lambda>e exclude. (e, True) # exclude) xs acc) m =
     (if m \<in> set xs then Some True else map_of acc m)"
  by (induction xs arbitrary: acc) auto

lemma map_of_newExclude:
  "map_of (newExclude xs) m = (if m \<in> set xs then Some True else None)"
  by (simp add: newExclude_def map_of_fold_exclude)

lemma GetSigningMethod_Alg: "GetSigningMethod (Alg m) = Some m"
proof (cases m)
  case (SigningMethodHMAC h)
  then show ?thesis by (cases h) (simp_all add: GetSigningMethod_def signingMethods_def)
next
  case (SigningMethodRSA h)
  then show ?thesis by (cases h) (simp_all add: GetSigningMethod_def signingMethods_def)
next
  case (SigningMethodRSAPSS h)
  then show ?thesis by (cases h) (simp_all add: GetSigningMethod_def signingMethods_def)
next
  case (SigningMethodECDSA h)
  then show ?thesis by (cases h) (simp_all add: GetSigningMethod_def signingMethods_def)
next
  case SigningMethodNone
  then show ?thesis by (simp add: GetSigningMethod_def signingMethods_def)
qed

lemmas claim_names = claimUser_def claimChallenge_def claimOrigAt_def claimExpiry_def

lemma NewWithClaims_sel:
  "Claims (NewWithClaims m cl) = cl" "Method (NewWithClaims m cl) = m"
  by (simp_all add: NewWithClaims_def)

lemma Sign_Verify: "Sign lib m ss key = Inr sig \<Longrightarrow> Verify lib m ss sig key"
  by (cases m) auto

lemma Contains_iff: "strings_Contains s sub \<longleftrightarrow> (\<exists>p q. s = p @ sub @ q)"
proof (induction s)
  case Nil
  then show ?case by auto
next
  case (Cons c cs)
  show ?case
  proof
    assume "strings_Contains (c # cs) sub"
    then consider "strings_HasPrefix (c # cs) sub" | "strings_Contains cs sub"
      by (auto split: if_splits)
    then show "\<exists>p q. c # cs = p @ sub @ q"
    proof cases
      case 1
      then have "c # cs = [] @ sub @ drop (length sub) (c # cs)"
        unfolding strings_HasPrefix_def by (metis append_Nil append_take_drop_id)
      then show ?thesis by blast
    next
      case 2
      then obtain p q where "cs = p @ sub @ q" using Cons.IH by blast
      then have "c # cs = (c # p) @ sub @ q" by simp
      then show ?thesis by blast
    qed
  next
    assume "\<exists>p q. c # cs = p @ sub @ q"
    then obtain p q where pq: "c # cs = p @ sub @ q" by blast
    show "strings_Contains (c # cs) sub"
    proof (cases p)
      case Nil
      with pq have "strings_HasPrefix (c # cs) sub" by (simp add: strings_HasPrefix_def)
      then show ?thesis by simp
    next
      case (Cons x xs)
      with pq have "cs = xs @ sub @ q" by simp
      then have "strings_Contains cs sub" using Cons.IH by blast
      then show ?thesis by simp
    qed
  qed
qed

lemma SignedString_parse:
  assumes f: "faithful lib (NewWithClaims m cl) key"
    and s: "SignedString lib (NewWithClaims m cl) key = Inr tok"
  shows "\<exists>sig. Sign lib m (SigningString lib (NewWithClaims m cl)) key = Inr sig
           \<and> CHR '' '' \<notin> set tok
           \<and> ParseUnverified lib tok =
               Inr (\<lparr>Raw = tok, Method = m, Header = Header (NewWithClaims m cl), Claims = cl,
                     Signature = [], Valid = False\<rparr>,
                    encodeJSON lib (Header (NewWithClaims m cl)), encodeJSON lib cl, sig)"
proof -
  let ?t = "NewWithClaims m cl"
  let ?h = "encodeJSON lib (Header ?t)"
  let ?c = "encodeJSON lib cl"
  from s obtain sig where sig: "Sign lib m (SigningString lib ?t) key = Inr sig"
    and tok: "tok = ?h @ ''.'' @ ?c @ ''.'' @ sig"
    by (auto simp: SignedString_def SigningString_def NewWithClaims_def split: sum.splits)
  from f sig have segs: "segment ?h" "segment ?c" "segment sig"
    and dh: "decodeJSON lib ?h = Some (Header ?t)"
    and dc: "decodeJSON lib ?c = Some cl"
    by (auto simp: faithful_def roundtrips_def NewWithClaims_def)
  have split: "strings_Split tok ''.'' = [?h, ?c, sig]"
    unfolding tok using segs by (intro Split_three) (auto simp: segment_def)
  have nospace: "CHR '' '' \<notin> set tok"
    unfolding tok using segs by (auto simp: segment_def)
  have alg: "map_of (Header ?t) ''alg'' = Some (CString (Alg m))"
    by (simp add: NewWithClaims_def)
  have "ParseUnverified lib tok =
          Inr (\<lparr>Raw = tok, Method = m, Header = Header ?t, Claims = cl,
                Signature = [], Valid = False\<rparr>, ?h, ?c, sig)"
    unfolding ParseUnverified_def split by (simp add: dh dc alg GetSigningMethod_Alg)
  with sig nospace show ?thesis by blast
qed

lemma session_claims_valid:
  "Unix v \<le> expire \<Longrightarrow>
   MapClaims_Valid [(claimUser, CString U), (claimExpiry, CNumber expire), (claimOrigAt, CNumber iat)] v = []"
  by (simp add: MapClaims_Valid_def VerifyExpiresAt_def VerifyIssuedAt_def VerifyNotBefore_def
      verifyExp_def claim_names)

section \<open>Evaluation on the example deployment\<close>

text \<open>The definitions to unfold when a function is run on an explicit input.\<close>

lemmas example_defs =
  example_lib_def example_service_def example_store_def example_alice_def example_codebook_def
  bearer_context_def counting_handler_def counting_stream_handler_def anon_store_def
  blank_store_def
  short_service_def bare_context_def

lemmas model_defs =
  strings_Split_def strings_HasPrefix_def
  Unix_def Second_def Hour_def
  GetSigningMethod_def signingMethods_def
  verifyExp_def verifyIat_def verifyNbf_def VerifyExpiresAt_def VerifyIssuedAt_def
  VerifyNotBefore_def MapClaims_Valid_def
  NewWithClaims_def SigningString_def SignedString_def ParseUnverified_def Parse_def
  claimUser_def claimChallenge_def claimOrigAt_def claimExpiry_def
  FindByUserName_def ValidateEmailVerificationToken_def ctxSetClaims_def ctxSetUser_def
  validate_keyFunc_def validate_def signAPIToken_def signChallengeToken_def
  verification_keyFunc_def VerificationHandler_def
  newExclude_def unaryInterceptor_def streamInterceptor_def readClaim_def Let_def
  segment_def roundtrips_def faithful_def lacksBearer_def

lemma Unix_mono: "t \<le> t' \<Longrightarrow> Unix t \<le> Unix t'"
  by (simp add: Unix_def Second_def zdiv_mono1)

text \<open>
  A signature segment need not be the segment that \<open>Sign\<close> wrote: in the example, the
  padded spelling of the MAC verifies as well, and the handler redeems the challenge token
  of \<open>alice\<close> with that signature.
\<close>

lemma padded_signature_verifies:
  "Verify example_lib (SigningMethodHMAC SHA512) ''h512.challenge''
     ''mac512-secret-h512challenge=='' ''secret''
   \<and> VerificationHandler example_lib example_service 0 0 ''alice''
       ''h512.challenge.mac512-secret-h512challenge=='' example_store
     = (MsgOK ''user verified'', blank_store\<lparr>lookups := [''alice'']\<rparr>)"
  by (simp add: model_defs example_defs)

section \<open>Facts about \<open>jwt.Parse\<close> under the key function of the handler\<close>

lemma Parse_verification_accepts:
  assumes "ParseUnverified lib tok = Inr (token, p0, p1, p2)"
    and "Method token = SigningAlgo (jwt a)"
    and "Verify lib (Method token) (p0 @ ''.'' @ p1) p2 (Key (jwt a))"
    and "MapClaims_Valid (Claims token) t = []"
  shows "fst (Parse lib t tok (verification_keyFunc a) s) = Inr (token\<lparr>Signature := p2, Valid := True\<rparr>)"
proof -
  from assms(3) obtain h where h: "Method token = SigningMethodHMAC h"
    by (cases "Method token") auto
  with assms(2) have a: "SigningAlgo (jwt a) = SigningMethodHMAC h" by simp
  from assms(3) h have v: "Verify lib (SigningMethodHMAC h) (p0 @ ''.'' @ p1) p2 (Key (jwt a))"
    by simp
  show ?thesis
    unfolding Parse_def assms(1)
    using v by (simp add: verification_keyFunc_def h a assms(4) Let_def del: Verify.simps)
qed



section \<open>Shared facts about \<open>validate\<close> and the handler\<close>

text \<open>
  \<open>validate\<close> accepts every bearer token that \<open>SignedString\<close> produced under the configured
  key, whatever the method \<open>m\<close> the token was signed with, provided its claims pass the
  claim check at both clock readings and name a user of the store.
\<close>

lemma validate_signed_token:
  assumes s: "SignedString lib (NewWithClaims m cl) (Key (jwt a)) = Inr tok"
    and codec: "faithful lib (NewWithClaims m cl) (Key (jwt a))"
    and valid: "MapClaims_Valid cl v1 = []" "MapClaims_Valid cl v2 = []"
    and id: "map_of cl claimUser = Some (CString U)" "U \<noteq> []"
    and user: "map_of (accounts db) U = Some u"
    and md: "incomingMD ctx = Some meta"
            "map_of meta ''authorization'' = Some ((''Bearer '' @ tok) # others)"
  shows "validate lib a v1 v2 ctx db =
           (Inr (ctx\<lparr>ctxClaims := Some cl, ctxUser := Some u\<rparr>),
            db\<lparr>lookups := lookups db @ [U]\<rparr>)"
proof -
  let ?t = "NewWithClaims m cl"
  from SignedString_parse[OF codec s] obtain sig where
    sig: "Sign lib m (SigningString lib ?t) (Key (jwt a)) = Inr sig"
    and nospace: "CHR '' '' \<notin> set tok"
    and parse: "ParseUnverified lib tok =
                  Inr (\<lparr>Raw = tok, Method = m, Header = Header ?t, Claims = cl,
                        Signature = [], Valid = False\<rparr>,
                       encodeJSON lib (Header ?t), encodeJSON lib cl, sig)"
    by blast
  have ver: "Verify lib m (encodeJSON lib (Header ?t) @ ''.'' @ encodeJSON lib cl) sig (Key (jwt a))"
    using Sign_Verify[OF sig] by (simp add: SigningString_def NewWithClaims_sel)
  have kf: "validate_keyFunc a v1
              \<lparr>Raw = tok, Method = m, Header = Header ?t, Claims = cl,
               Signature = [], Valid = False\<rparr>
              \<lparr>claims_var = None, user_var = None, users = db\<rparr>
            = (Inr (Key (jwt a)),
               \<lparr>claims_var = Some cl, user_var = Some u, users = db\<lparr>lookups := lookups db @ [U]\<rparr>\<rparr>)"
    using user id by (simp add: validate_keyFunc_def valid FindByUserName_def Let_def)
  have p: "Parse lib v2 tok (validate_keyFunc a v1) \<lparr>claims_var = None, user_var = None, users = db\<rparr>
            = (Inr \<lparr>Raw = tok, Method = m, Header = Header ?t, Claims = cl,
                    Signature = sig, Valid = True\<rparr>,
               \<lparr>claims_var = Some cl, user_var = Some u, users = db\<lparr>lookups := lookups db @ [U]\<rparr>\<rparr>)"
    unfolding Parse_def parse using ver
    by (simp add: kf valid Let_def)
  show ?thesis
    unfolding validate_def using Split_Bearer[OF nospace]
    by (simp add: md p ctxSetClaims_def ctxSetUser_def)
qed

lemma validate_lacksBearer:
  assumes "lacksBearer ctx"
  shows "\<exists>msg. validate lib a now1 now2 ctx db = (Inl (Errorf Unauthenticated msg), db)"
proof (cases "incomingMD ctx")
  case None
  then show ?thesis by (simp add: validate_def)
next
  case (Some meta)
  show ?thesis
  proof (cases "map_of meta ''authorization''")
    case None
    with Some show ?thesis by (simp add: validate_def)
  next
    case keys: (Some keys)
    show ?thesis
    proof (cases keys)
      case Nil
      with Some keys show ?thesis by (simp add: validate_def)
    next
      case (Cons v vs)
      with assms Some keys have "\<not> strings_Contains v ''Bearer ''"
        by (simp add: lacksBearer_def)
      then have "strings_Split v ''Bearer '' = [v]"
        by (simp add: Split_no_sep)
      with Some keys Cons show ?thesis by (simp add: validate_def)
    qed
  qed
qed


section \<open>C1: the signing algorithm at the request gate\<close>

text \<open>
  Claim C1 says that the gate rejects every token whose header algorithm differs from the
  configured signing algorithm, even when its signature verifies under the configured key
  with the algorithm its header names. The key function of \<open>validate\<close> never looks at the
  token's method, so the code does the opposite: for every method \<open>m\<close> other than the
  configured one, a token that \<open>SignedString\<close> signed with \<open>m\<close> under the configured key
  (so \<open>m\<close> is an HMAC method, the token's header names it and the signature is the one that
  \<open>m\<close> computes and verifies), whose claims pass the claim check and name a user of the store, is accepted by
  \<open>validate\<close>, and the unary interceptor of a non-exempt method invokes the handler with
  the identity attached.
  \<open>VerificationHandler\<close> does compare the method with the configured one.
\<close>

theorem validate_accepts_other_algorithm:
  assumes other: "m \<noteq> SigningAlgo (jwt a)"
    and s: "SignedString lib (NewWithClaims m cl) (Key (jwt a)) = Inr tok"
    and codec: "faithful lib (NewWithClaims m cl) (Key (jwt a))"
    and valid: "MapClaims_Valid cl v1 = []" "MapClaims_Valid cl v2 = []"
    and id: "map_of cl claimUser = Some (CString U)" "U \<noteq> []"
    and user: "map_of (accounts db) U = Some u"
    and md: "incomingMD ctx = Some meta"
            "map_of meta ''authorization'' = Some ((''Bearer '' @ tok) # others)"
    and exempt: "FullMethod \<notin> set exceptions"
  shows "(\<exists>t p0 p1 p2. ParseUnverified lib tok = Inr (t, p0, p1, p2) \<and> Method t = m
            \<and> Sign lib m (p0 @ ''.'' @ p1) (Key (jwt a)) = Inr p2
            \<and> Verify lib m (p0 @ ''.'' @ p1) p2 (Key (jwt a)))
       \<and> validate lib a v1 v2 ctx db =
           (Inr (ctx\<lparr>ctxClaims := Some cl, ctxUser := Some u\<rparr>),
            db\<lparr>lookups := lookups db @ [U]\<rparr>)
       \<and> unaryInterceptor lib a exceptions v1 v2 ctx req FullMethod (Some h) (db, w) =
           h (ctx\<lparr>ctxClaims := Some cl, ctxUser := Some u\<rparr>) req
             (db\<lparr>lookups := lookups db @ [U]\<rparr>, w)"
proof -
  have v: "validate lib a v1 v2 ctx db =
           (Inr (ctx\<lparr>ctxClaims := Some cl, ctxUser := Some u\<rparr>),
            db\<lparr>lookups := lookups db @ [U]\<rparr>)"
    by (rule validate_signed_token[OF s codec valid id user md])
  from SignedString_parse[OF codec s] obtain sig where
    sig: "Sign lib m (SigningString lib (NewWithClaims m cl)) (Key (jwt a)) = Inr sig"
    and parse: "ParseUnverified lib tok =
                  Inr (\<lparr>Raw = tok, Method = m, Header = Header (NewWithClaims m cl), Claims = cl,
                        Signature = [], Valid = False\<rparr>,
                       encodeJSON lib (Header (NewWithClaims m cl)), encodeJSON lib cl, sig)"
    by blast
  let ?ss = "encodeJSON lib (Header (NewWithClaims m cl)) @ ''.'' @ encodeJSON lib cl"
  have sg: "Sign lib m ?ss (Key (jwt a)) = Inr sig"
    using sig by (simp add: SigningString_def NewWithClaims_sel)
  have "Verify lib m ?ss sig (Key (jwt a))"
    by (rule Sign_Verify[OF sg])
  with parse sg
  have "\<exists>t p0 p1 p2. ParseUnverified lib tok = Inr (t, p0, p1, p2) \<and> Method t = m
            \<and> Sign lib m (p0 @ ''.'' @ p1) (Key (jwt a)) = Inr p2
            \<and> Verify lib m (p0 @ ''.'' @ p1) p2 (Key (jwt a))"
    by simp
  moreover have "unaryInterceptor lib a exceptions v1 v2 ctx req FullMethod (Some h) (db, w) =
           h (ctx\<lparr>ctxClaims := Some cl, ctxUser := Some u\<rparr>) req
             (db\<lparr>lookups := lookups db @ [U]\<rparr>, w)"
    using exempt by (simp add: unaryInterceptor_def map_of_newExclude v)
  ultimately show ?thesis using v by blast
qed

text \<open>
  On the example deployment (configured for HS512): the HS256 token of \<open>alice\<close>, signed with
  the configured key, passes \<open>validate\<close> and reaches the handler (its counter goes from 0 to
  1), while the handler of the verification endpoint refuses an HS256 token.
\<close>

theorem validate_accepts_other_algorithm_witness:
  "SigningMethodHMAC SHA256 \<noteq> SigningAlgo (jwt example_service)
   \<and> SignedString example_lib
         (NewWithClaims (SigningMethodHMAC SHA256)
            [(''id'', CString ''alice''), (''exp'', CNumber 3600), (''orig_iat'', CNumber 0)])
         (Key (jwt example_service))
       = Inr ''h256.session.mac256-secret-h256session''
   \<and> validate example_lib example_service 0 0
         (bearer_context ''Bearer h256.session.mac256-secret-h256session'') example_store
       = (Inr \<lparr>incomingMD = Some [(''authorization'', [''Bearer h256.session.mac256-secret-h256session''])],
               ctxClaims = Some [(''id'', CString ''alice''), (''exp'', CNumber 3600), (''orig_iat'', CNumber 0)],
               ctxUser = Some example_alice\<rparr>,
          example_store\<lparr>lookups := [''alice'']\<rparr>)
   \<and> unaryInterceptor example_lib example_service [''/auth.TemporalAuth/Login''] 0 0
         (bearer_context ''Bearer h256.session.mac256-secret-h256session'') ()
         ''/auth.TemporalAuth/Account'' (Some counting_handler) (example_store, 0)
       = (Inr None, example_store\<lparr>lookups := [''alice'']\<rparr>, 1)
   \<and> fst (VerificationHandler example_lib example_service 0 0 ''alice''
         ''h256.challenge.mac256-secret-h256challenge'' example_store)
       = ErrUnauthorized ''invalid token''"
proof -
  let ?cl = "[(''id'', CString ''alice''), (''exp'', CNumber 3600), (''orig_iat'', CNumber 0)]"
  have 1: "SigningMethodHMAC SHA256 \<noteq> SigningAlgo (jwt example_service)"
    by (simp add: example_defs)
  have 2: "SignedString example_lib (NewWithClaims (SigningMethodHMAC SHA256) ?cl)
             (Key (jwt example_service)) = Inr ''h256.session.mac256-secret-h256session''"
    by (simp add: model_defs example_defs)
  have 3: "faithful example_lib (NewWithClaims (SigningMethodHMAC SHA256) ?cl)
             (Key (jwt example_service))"
    by (simp add: model_defs example_defs)
  have 4: "MapClaims_Valid ?cl 0 = []"
    by (simp add: model_defs)
  have 5: "map_of ?cl claimUser = Some (CString ''alice'')" "''alice'' \<noteq> []"
    by (simp_all add: claim_names)
  have 6: "map_of (accounts example_store) ''alice'' = Some example_alice"
    by (simp add: example_defs)
  have 7: "incomingMD (bearer_context ''Bearer h256.session.mac256-secret-h256session'')
             = Some [(''authorization'', [''Bearer h256.session.mac256-secret-h256session''])]"
    "map_of [(''authorization'', [''Bearer h256.session.mac256-secret-h256session''])] ''authorization''
       = Some ((''Bearer '' @ ''h256.session.mac256-secret-h256session'') # [])"
    by (simp_all add: example_defs)
  have 8: "''/auth.TemporalAuth/Account'' \<notin> set [''/auth.TemporalAuth/Login'']" by simp
  have 9: "fst (VerificationHandler example_lib example_service 0 0 ''alice''
         ''h256.challenge.mac256-secret-h256challenge'' example_store)
       = ErrUnauthorized ''invalid token''"
    by (simp add: model_defs example_defs)
  show ?thesis
    using validate_accepts_other_algorithm[OF 1 2 3 4 4 5 6 7 8,
        of "()" counting_handler 0] 1 2 9
    by (simp add: example_defs)
qed

section \<open>C2: the expiry claim of a challenge token\<close>

text \<open>
  Claim C2 says that the \<open>exp\<close> claim of the token of \<open>signChallengeToken\<close> is a number,
  the seconds since the epoch of the issuance time plus 24 hours, as for session tokens.
  The code stores \<open>time.Now().Add(time.Hour * 24).UTC().String()\<close>: read back from the
  token, \<open>exp\<close> is the text of that instant, and so it is not the number.
\<close>

theorem challenge_token_expiry_is_text:
  assumes sign: "signChallengeToken lib a now1 now2 user challenge = Inr tok"
    and codec: "faithful lib
                  (NewWithClaims (SigningAlgo (jwt a))
                     [(claimUser, CString user), (claimChallenge, CString challenge),
                      (claimExpiry, CString (timeString lib (now1 + Hour * 24))),
                      (claimOrigAt, CNumber (Unix now2))])
                  (Key (jwt a))"
  shows "readClaim lib tok claimExpiry = Some (CString (timeString lib (now1 + Hour * 24)))
       \<and> readClaim lib tok claimExpiry \<noteq> Some (CNumber (Unix (now1 + Hour * 24)))"
proof -
  let ?cl = "[(claimUser, CString user), (claimChallenge, CString challenge),
              (claimExpiry, CString (timeString lib (now1 + Hour * 24))),
              (claimOrigAt, CNumber (Unix now2))]"
  from sign have s: "SignedString lib (NewWithClaims (SigningAlgo (jwt a)) ?cl) (Key (jwt a)) = Inr tok"
    by (simp add: signChallengeToken_def)
  from SignedString_parse[OF codec s] obtain t parts where
    "ParseUnverified lib tok = Inr (t, parts)" "Claims t = ?cl"
    by auto
  then show ?thesis by (simp add: readClaim_def claim_names)
qed

text \<open>On the example deployment, for a challenge token issued at the epoch.\<close>

theorem challenge_token_expiry_is_text_witness:
  "signChallengeToken example_lib example_service 0 0 ''alice'' ''c0''
     = Inr ''h512.challenge.mac512-secret-h512challenge''
   \<and> readClaim example_lib ''h512.challenge.mac512-secret-h512challenge'' claimExpiry
     = Some (CString ''1970-01-02 00:00:00 +0000 UTC'')
   \<and> readClaim example_lib ''h512.challenge.mac512-secret-h512challenge'' claimExpiry
     \<noteq> Some (CNumber 86400)
   \<and> Unix (0 + Hour * 24) = 86400"
proof -
  have 1: "signChallengeToken example_lib example_service 0 0 ''alice'' ''c0''
             = Inr ''h512.challenge.mac512-secret-h512challenge''"
    by (simp add: model_defs example_defs)
  have 2: "faithful example_lib
             (NewWithClaims (SigningAlgo (jwt example_service))
                [(claimUser, CString ''alice''), (claimChallenge, CString ''c0''),
                 (claimExpiry, CString (timeString example_lib (0 + Hour * 24))),
                 (claimOrigAt, CNumber (Unix 0))])
             (Key (jwt example_service))"
    by (simp add: model_defs example_defs)
  show ?thesis
    using challenge_token_expiry_is_text[OF 1 2] 1
    by (simp add: example_lib_def Unix_def Hour_def Second_def)
qed

section \<open>C3: expired tokens\<close>

text \<open>
  Claim C3 says that a token whose \<open>exp\<close> claim denotes a past time fails validation at the
  gate and at the verification endpoint, and in particular that an expired challenge token
  is rejected at redemption. \<open>MapClaims.Valid\<close> only compares a numeric \<open>exp\<close>, and
  \<open>signChallengeToken\<close> writes \<open>exp\<close> as text, so a challenge token never expires: the token
  that \<open>signChallengeToken\<close> issued for a user and the user's active verification value is
  redeemed by \<open>VerificationHandler\<close> at every pair of clock readings \<open>now1\<close>, \<open>now2\<close>,
  however late.
\<close>

theorem challenge_token_never_expires:
  assumes sign: "signChallengeToken lib a i1 i2 user challenge = Inr tok"
    and codec: "faithful lib
                  (NewWithClaims (SigningAlgo (jwt a))
                     [(claimUser, CString user), (claimChallenge, CString challenge),
                      (claimExpiry, CString (timeString lib (i1 + Hour * 24))),
                      (claimOrigAt, CNumber (Unix i2))])
                  (Key (jwt a))"
    and user: "user \<noteq> []" "map_of (accounts db) user = Some u"
              "EmailVerificationToken u = challenge"
  shows "VerificationHandler lib a now1 now2 user tok db =
           (MsgOK ''user verified'',
            db\<lparr>lookups := lookups db @ [user],
               accounts := AList.update user
                            (u\<lparr>EmailVerificationToken := []\<rparr>) (accounts db)\<rparr>)"
proof -
  let ?cl = "[(claimUser, CString user), (claimChallenge, CString challenge),
              (claimExpiry, CString (timeString lib (i1 + Hour * 24))),
              (claimOrigAt, CNumber (Unix i2))]"
  let ?t = "NewWithClaims (SigningAlgo (jwt a)) ?cl"
  from sign have s: "SignedString lib ?t (Key (jwt a)) = Inr tok"
    by (simp add: signChallengeToken_def)
  from SignedString_parse[OF codec s] obtain sig where
    sig: "Sign lib (SigningAlgo (jwt a)) (SigningString lib ?t) (Key (jwt a)) = Inr sig"
    and parse: "ParseUnverified lib tok =
                  Inr (\<lparr>Raw = tok, Method = SigningAlgo (jwt a), Header = Header ?t, Claims = ?cl,
                        Signature = [], Valid = False\<rparr>,
                       encodeJSON lib (Header ?t), encodeJSON lib ?cl, sig)"
    by blast
  have ver: "Verify lib (SigningAlgo (jwt a))
               (encodeJSON lib (Header ?t) @ ''.'' @ encodeJSON lib ?cl) sig (Key (jwt a))"
    using Sign_Verify[OF sig] by (simp add: SigningString_def NewWithClaims_sel)
  have valid: "MapClaims_Valid ?cl t = []" for t
    by (simp add: MapClaims_Valid_def VerifyExpiresAt_def VerifyIssuedAt_def VerifyNotBefore_def
        claim_names)
  have p: "fst (Parse lib now1 tok (verification_keyFunc a) ()) =
             Inr \<lparr>Raw = tok, Method = SigningAlgo (jwt a), Header = Header ?t, Claims = ?cl,
                  Signature = sig, Valid = True\<rparr>"
    using Parse_verification_accepts[OF parse, of a now1 "()"] ver valid by simp
  from s have ne: "tok \<noteq> []"
    by (auto simp: SignedString_def split: sum.splits)
  have c1: "map_of ?cl claimUser = Some (CString user)"
    and c2: "map_of ?cl claimChallenge = Some (CString challenge)"
    by (simp_all add: claim_names)
  show ?thesis
    unfolding VerificationHandler_def
    using user ne
    by (simp add: p c1 c2 valid FindByUserName_def ValidateEmailVerificationToken_def Let_def
        del: map_of.simps)
qed

text \<open>
  On the example deployment: the challenge token issued at the epoch, whose \<open>exp\<close> names the
  instant 24 hours later, is redeemed 48 hours after issuance.
\<close>

theorem challenge_token_never_expires_witness:
  "signChallengeToken example_lib example_service 0 0 ''alice'' ''c0''
     = Inr ''h512.challenge.mac512-secret-h512challenge''
   \<and> EmailVerificationToken example_alice = ''c0''
   \<and> VerificationHandler example_lib example_service (48 * Hour) (48 * Hour) ''alice''
       ''h512.challenge.mac512-secret-h512challenge'' example_store
     = (MsgOK ''user verified'',
        \<lparr>accounts = [(''alice'', example_alice\<lparr>EmailVerificationToken := []\<rparr>)],
         lookups = [''alice'']\<rparr>)"
proof -
  have 1: "signChallengeToken example_lib example_service 0 0 ''alice'' ''c0''
             = Inr ''h512.challenge.mac512-secret-h512challenge''"
    by (simp add: model_defs example_defs)
  have 2: "faithful example_lib
             (NewWithClaims (SigningAlgo (jwt example_service))
                [(claimUser, CString ''alice''), (claimChallenge, CString ''c0''),
                 (claimExpiry, CString (timeString example_lib (0 + Hour * 24))),
                 (claimOrigAt, CNumber (Unix 0))])
             (Key (jwt example_service))"
    by (simp add: model_defs example_defs)
  have 3: "''alice'' \<noteq> []" "map_of (accounts example_store) ''alice'' = Some example_alice"
    "EmailVerificationToken example_alice = ''c0''"
    by (simp_all add: example_defs)
  show ?thesis
    using challenge_token_never_expires[OF 1 2 3, of "48 * Hour" "48 * Hour"] 1 3
    by (simp add: example_defs)
qed

section \<open>C4: a session token validates\<close>

text \<open>
  Claim C4, as amended. For every non-empty user identifier \<open>U\<close> present in the identity
  store and a fixed signing configuration, \<open>validate\<close> accepts the bearer token that
  \<open>signAPIToken\<close> produced for \<open>U\<close> at every clock reading up to the token's expiry instant
  (issuance plus timeout), and attaches claims whose identity claim \<open>id\<close> is \<open>U\<close>, together
  with the user found for \<open>U\<close>. The codec is assumed faithful on the token.
\<close>

theorem session_token_validates:
  assumes sign: "signAPIToken lib a t1 t2 U = (expire, Inr tok)"
    and codec: "faithful lib
                  (NewWithClaims (SigningAlgo (jwt a))
                     [(claimUser, CString U), (claimExpiry, CNumber expire),
                      (claimOrigAt, CNumber (Unix t2))])
                  (Key (jwt a))"
    and user: "map_of (accounts db) U = Some u" "U \<noteq> []"
    and md: "incomingMD ctx = Some meta"
            "map_of meta ''authorization'' = Some ((''Bearer '' @ tok) # others)"
    and time: "v1 \<le> t1 + Timeout (jwt a)" "v2 \<le> t1 + Timeout (jwt a)"
  shows "validate lib a v1 v2 ctx db =
           (Inr (ctx\<lparr>ctxClaims := Some [(claimUser, CString U), (claimExpiry, CNumber expire),
                                         (claimOrigAt, CNumber (Unix t2))],
                     ctxUser := Some u\<rparr>),
            db\<lparr>lookups := lookups db @ [U]\<rparr>)"
proof -
  let ?cl = "[(claimUser, CString U), (claimExpiry, CNumber expire), (claimOrigAt, CNumber (Unix t2))]"
  from sign have s: "SignedString lib (NewWithClaims (SigningAlgo (jwt a)) ?cl) (Key (jwt a)) = Inr tok"
    by (auto simp: signAPIToken_def Let_def)
  from sign have e: "expire = Unix (t1 + Timeout (jwt a))"
    by (auto simp: signAPIToken_def Let_def)
  have v: "Unix v1 \<le> expire" "Unix v2 \<le> expire"
    unfolding e using time by (simp_all add: Unix_mono)
  have id: "map_of ?cl claimUser = Some (CString U)" by simp
  show ?thesis
    by (rule validate_signed_token[OF s codec session_claims_valid[OF v(1)]
          session_claims_valid[OF v(2)] id user(2) user(1) md])
qed

text \<open>On the example deployment: the token of \<open>alice\<close>, validated half an hour after issuance.\<close>

theorem session_token_validates_witness:
  "signAPIToken example_lib example_service 0 0 ''alice''
     = (3600, Inr ''h512.session.mac512-secret-h512session'')
   \<and> faithful example_lib
         (NewWithClaims (SigningMethodHMAC SHA512)
            [(''id'', CString ''alice''), (''exp'', CNumber 3600), (''orig_iat'', CNumber 0)])
         ''secret''
   \<and> 1800 * Second \<le> 0 + Timeout (jwt example_service)
   \<and> validate example_lib example_service (1800 * Second) (1800 * Second)
         (bearer_context ''Bearer h512.session.mac512-secret-h512session'') example_store
       = (Inr \<lparr>incomingMD = Some [(''authorization'', [''Bearer h512.session.mac512-secret-h512session''])],
               ctxClaims = Some [(''id'', CString ''alice''), (''exp'', CNumber 3600), (''orig_iat'', CNumber 0)],
               ctxUser = Some example_alice\<rparr>,
          example_store\<lparr>lookups := [''alice'']\<rparr>)"
proof -
  have 1: "signAPIToken example_lib example_service 0 0 ''alice''
             = (3600, Inr ''h512.session.mac512-secret-h512session'')"
    by (simp add: model_defs example_defs)
  have 2: "faithful example_lib
             (NewWithClaims (SigningAlgo (jwt example_service))
                [(claimUser, CString ''alice''), (claimExpiry, CNumber 3600),
                 (claimOrigAt, CNumber (Unix 0))])
             (Key (jwt example_service))"
    by (simp add: model_defs example_defs)
  have 3: "map_of (accounts example_store) ''alice'' = Some example_alice" "''alice'' \<noteq> []"
    by (simp_all add: example_defs)
  have 4: "incomingMD (bearer_context ''Bearer h512.session.mac512-secret-h512session'')
             = Some [(''authorization'', [''Bearer h512.session.mac512-secret-h512session''])]"
    "map_of [(''authorization'', [''Bearer h512.session.mac512-secret-h512session''])] ''authorization''
       = Some ((''Bearer '' @ ''h512.session.mac512-secret-h512session'') # [])"
    by (simp_all add: example_defs)
  have 5: "1800 * Second \<le> 0 + Timeout (jwt example_service)"
    by (simp add: Second_def example_defs)
  show ?thesis
    using session_token_validates[OF 1 2 3 4 5 5] 1 2 5
    by (simp add: example_defs claim_names Unix_def)
qed

text \<open>
  Claim C4 as stated fails for the empty user identifier: with an account named by the
  empty string in the store and a positive timeout, \<open>signAPIToken\<close> issues a token for it
  and \<open>validate\<close> rejects that token at the instant of issuance, by its test
  \<open>userID == ""\<close>.
\<close>

theorem empty_user_session_rejected:
  "map_of (accounts anon_store) [] = Some (example_alice\<lparr>UserName := []\<rparr>)
   \<and> 0 < Timeout (jwt example_service)
   \<and> signAPIToken example_lib example_service 0 0 []
       = (3600, Inr ''h512.anon.mac512-secret-h512anon'')
   \<and> validate example_lib example_service 0 0
         (bearer_context (''Bearer '' @ ''h512.anon.mac512-secret-h512anon'')) anon_store
       = (Inl (Errorf Unauthenticated ''invalid key: %v''), anon_store)"
  by (simp add: model_defs example_defs)

section \<open>C5: a challenge token is redeemed once\<close>




section \<open>C6: calls without a bearer credential\<close>

text \<open>
  Claim C6, as amended. For every inbound call, unary or streaming, to a method that is
  not exempt, whose metadata is missing, or has no \<open>authorization\<close> value, or whose first
  \<open>authorization\<close> value does not contain the text \<open>Bearer \<close> (\<open>lacksBearer\<close>), the
  interceptor rejects the call with \<open>Unauthenticated\<close> and the handler is not invoked:
  whatever the handler is, the state of the service after the call is the state before
  it.
\<close>

theorem no_bearer_rejected:
  assumes "FullMethod \<notin> set exceptions" and "lacksBearer ctx" and "stream_Context stream = ctx"
  shows "\<exists>msg. unaryInterceptor lib a exceptions now1 now2 ctx req FullMethod handler st
                 = (Inl (Errorf Unauthenticated msg), st)
             \<and> streamInterceptor lib a exceptions now1 now2 srv stream FullMethod shandler st
                 = (Some (Errorf Unauthenticated msg), st)"
proof -
  from validate_lacksBearer[OF assms(2)] obtain msg where
    v: "validate lib a now1 now2 ctx (fst st) = (Inl (Errorf Unauthenticated msg), fst st)"
    by blast
  have "unaryInterceptor lib a exceptions now1 now2 ctx req FullMethod handler st
          = (Inl (Errorf Unauthenticated msg), st)"
    using assms(1) by (simp add: unaryInterceptor_def map_of_newExclude v)
  moreover have "streamInterceptor lib a exceptions now1 now2 srv stream FullMethod shandler st
          = (Some (Errorf Unauthenticated msg), st)"
    using assms(1) by (simp add: streamInterceptor_def map_of_newExclude assms(3) v)
  ultimately show ?thesis by blast
qed

text \<open>
  On the example deployment: a call without metadata and a call whose \<open>authorization\<close>
  value is a bare token are rejected, and the counter of the handler stays at 0.
\<close>

theorem no_bearer_rejected_witness:
  "''/auth.TemporalAuth/Account'' \<notin> set [''/auth.TemporalAuth/Login'']
   \<and> lacksBearer bare_context
   \<and> lacksBearer (bearer_context ''h512.session.mac512-secret-h512session'')
   \<and> unaryInterceptor example_lib example_service [''/auth.TemporalAuth/Login''] 0 0
        bare_context () ''/auth.TemporalAuth/Account'' (Some counting_handler) (example_store, 0)
      = (Inl (Errorf Unauthenticated ''missing context metadata''), example_store, 0)
   \<and> unaryInterceptor example_lib example_service [''/auth.TemporalAuth/Login''] 0 0
        (bearer_context ''h512.session.mac512-secret-h512session'') ()
        ''/auth.TemporalAuth/Account'' (Some counting_handler) (example_store, 0)
      = (Inl (Errorf Unauthenticated ''invalid key''), example_store, 0)
   \<and> streamInterceptor example_lib example_service [''/auth.TemporalAuth/Login''] 0 0
        () (TransportStream bare_context ()) ''/auth.TemporalAuth/Account''
        (Some counting_stream_handler) (example_store, 0)
      = (Some (Errorf Unauthenticated ''missing context metadata''), example_store, 0)"
proof -
  have 1: "''/auth.TemporalAuth/Account'' \<notin> set [''/auth.TemporalAuth/Login'']" by simp
  have 2: "lacksBearer bare_context"
    by (simp add: lacksBearer_def bare_context_def)
  have 3: "lacksBearer (bearer_context ''h512.session.mac512-secret-h512session'')"
    by (simp add: lacksBearer_def bearer_context_def strings_HasPrefix_def)
  have 4: "stream_Context (TransportStream bare_context ()) = bare_context" by simp
  have 5: "validate example_lib example_service 0 0 bare_context example_store
             = (Inl (Errorf Unauthenticated ''missing context metadata''), example_store)"
    by (simp add: validate_def bare_context_def)
  have 6: "validate example_lib example_service 0 0
             (bearer_context ''h512.session.mac512-secret-h512session'') example_store
             = (Inl (Errorf Unauthenticated ''invalid key''), example_store)"
    by (simp add: validate_def bearer_context_def strings_Split_def strings_HasPrefix_def)
  from no_bearer_rejected[OF 1 2 4, of example_lib example_service 0 0 "()"
      "Some counting_handler" "(example_store, 0)" "()" "Some counting_stream_handler"]
  have a: "unaryInterceptor example_lib example_service [''/auth.TemporalAuth/Login''] 0 0
        bare_context () ''/auth.TemporalAuth/Account'' (Some counting_handler) (example_store, 0)
      = (Inl (Errorf Unauthenticated ''missing context metadata''), example_store, 0)
     \<and> streamInterceptor example_lib example_service [''/auth.TemporalAuth/Login''] 0 0
        () (TransportStream bare_context ()) ''/auth.TemporalAuth/Account''
        (Some counting_stream_handler) (example_store, 0)
      = (Some (Errorf Unauthenticated ''missing context metadata''), example_store, 0)"
    by (auto simp: unaryInterceptor_def streamInterceptor_def map_of_newExclude 5)
  have b: "unaryInterceptor example_lib example_service [''/auth.TemporalAuth/Login''] 0 0
        (bearer_context ''h512.session.mac512-secret-h512session'') ()
        ''/auth.TemporalAuth/Account'' (Some counting_handler) (example_store, 0)
      = (Inl (Errorf Unauthenticated ''invalid key''), example_store, 0)"
    by (simp add: unaryInterceptor_def map_of_newExclude 6)
  from 1 2 3 a b show ?thesis by blast
qed

text \<open>
  Claim C6 as stated fails for a value that is not of the form \<open>Bearer <token>\<close> but
  contains that text: \<open>strings.Split\<close> cuts \<open>xBearer <token>\<close> into \<open>x\<close> and the token, the
  token validates, and the handler of the non-exempt method is invoked (its counter goes
  from 0 to 1).
\<close>

theorem bearer_inside_value_accepted:
  "\<not> strings_HasPrefix ''xBearer h512.session.mac512-secret-h512session'' ''Bearer ''
   \<and> map_of (newExclude [''/auth.TemporalAuth/Login'']) ''/auth.TemporalAuth/Account'' = None
   \<and> unaryInterceptor example_lib example_service [''/auth.TemporalAuth/Login''] 0 0
         (bearer_context ''xBearer h512.session.mac512-secret-h512session'') ()
         ''/auth.TemporalAuth/Account'' (Some counting_handler) (example_store, 0)
       = (Inr None, example_store\<lparr>lookups := [''alice'']\<rparr>, 1)"
  by (simp add: model_defs example_defs)

section \<open>C7: the exemption set\<close>

text \<open>
  Claim C7. For every inbound call, unary or streaming, whose fully-qualified method name
  is in the exemption set, the interceptor invokes the handler with the call's context
  unmodified: the unary handler is applied to the very context and request of the call,
  the stream handler to the very stream of the call, both on the unchanged state of the
  service. No token is needed (the context is arbitrary), \<open>validate\<close> does not run (the
  identity store the handler sees is the one before the call, with no lookup recorded)
  and no identity is attached. With a \<open>nil\<close> handler there is nothing to invoke: the
  interceptors return \<open>nil\<close> and leave the state alone.
\<close>

theorem exempt_call_forwarded:
  assumes "FullMethod \<in> set exceptions"
  shows "unaryInterceptor lib a exceptions now1 now2 ctx req FullMethod handler st
           = (case handler of Some h \<Rightarrow> h ctx req st | None \<Rightarrow> (Inr None, st))
       \<and> streamInterceptor lib a exceptions now1 now2 srv stream FullMethod shandler st
           = (case shandler of Some h \<Rightarrow> h srv stream st | None \<Rightarrow> (None, st))"
  using assms by (simp add: unaryInterceptor_def streamInterceptor_def map_of_newExclude)

theorem exempt_call_forwarded_witness:
  "''/auth.TemporalAuth/Login'' \<in> set [''/auth.TemporalAuth/Register'', ''/auth.TemporalAuth/Login'']
   \<and> unaryInterceptor example_lib example_service
        [''/auth.TemporalAuth/Register'', ''/auth.TemporalAuth/Login''] 0 0
        bare_context () ''/auth.TemporalAuth/Login'' (Some counting_handler) (example_store, 0)
      = (Inr None, example_store, 1)
   \<and> streamInterceptor example_lib example_service
        [''/auth.TemporalAuth/Register'', ''/auth.TemporalAuth/Login''] 0 0
        () (TransportStream bare_context ()) ''/auth.TemporalAuth/Login''
        (Some counting_stream_handler) (example_store, 0)
      = (None, example_store, 1)"
  using exempt_call_forwarded
    [of "''/auth.TemporalAuth/Login''" "[''/auth.TemporalAuth/Register'', ''/auth.TemporalAuth/Login'']"
        example_lib example_service 0 0 bare_context "()" "Some counting_handler"
        "(example_store, 0)" "()" "TransportStream bare_context ()" "Some counting_stream_handler"]
  by (simp add: counting_handler_def counting_stream_handler_def)

section \<open>C8: the address check\<close>

text \<open>
  Claim C8, as amended. \<open>validateEmailFormat\<close> rejects with \<open>MalformedAddress\<close> every
  address that contains no \<open>@\<close>. For an address with at least one \<open>@\<close> the local part is
  the text before the first \<open>@\<close> and the host the text between the first \<open>@\<close> and the
  next one (or the end): a local part containing \<open>+\<close> is rejected with
  \<open>CatchAllNotAllowed\<close>, otherwise a local part ending with \<open>.\<close> is rejected with
  \<open>TrailingPeriod\<close>, otherwise the host is looked up. The rules are checked in that order,
  and the index \<open>parts[1]\<close> is never out of range.
\<close>

theorem validateEmailFormat_rules:
  "validateEmailFormat LookupIP email =
     (let account = takeWhile (\<lambda>c. c \<noteq> CHR ''@'') email;
          host = takeWhile (\<lambda>c. c \<noteq> CHR ''@'') (tl (dropWhile (\<lambda>c. c \<noteq> CHR ''@'') email))
      in if CHR ''@'' \<notin> set email then Inl MalformedAddress
         else if CHR ''+'' \<in> set account then Inl CatchAllNotAllowed
         else if account \<noteq> [] \<and> last account = CHR ''.'' then Inl TrailingPeriod
         else if LookupIP host = None \<or> LookupIP host = Some [] then Inl (UnresolvableDomain host)
         else Inr ())"
proof (cases "CHR ''@'' \<in> set email")
  case False
  then show ?thesis by (simp add: validateEmailFormat_def strings_ContainsRune_def)
next
  case True
  let ?r = "tl (dropWhile (\<lambda>c. c \<noteq> CHR ''@'') email)"
  obtain x xs where r: "genSplit ''@'' [] ?r = x # xs"
    and x: "x = takeWhile (\<lambda>c. c \<noteq> CHR ''@'') ?r"
    using genSplit_singleton_hd[of "CHR ''@''" "[]" ?r] by auto
  have s: "strings_Split email ''@'' = takeWhile (\<lambda>c. c \<noteq> CHR ''@'') email # x # xs"
    using True r by (simp add: strings_Split_def genSplit_singleton[of _ "[]" email])
  show ?thesis
    using True
    by (auto simp: validateEmailFormat_def strings_ContainsRune_def s x HasSuffix_period Let_def
        split: option.splits)
qed

text \<open>
  Claim C8 as stated fails on addresses with more than one \<open>@\<close>: \<open>a+b@c@d\<close> has two and is
  rejected with \<open>CatchAllNotAllowed\<close>, not \<open>MalformedAddress\<close>; \<open>a@b@c\<close> has two and is
  accepted when \<open>b\<close> resolves.
\<close>

theorem validateEmailFormat_two_ats:
  "count_list ''a+b@c@d'' (CHR ''@'') = 2
   \<and> validateEmailFormat [''c'' \<mapsto> [0::nat]] ''a+b@c@d'' = Inl CatchAllNotAllowed
   \<and> count_list ''a@b@c'' (CHR ''@'') = 2
   \<and> validateEmailFormat [''b'' \<mapsto> [0::nat]] ''a@b@c'' = Inr ()"
  by (simp add: validateEmailFormat_def strings_ContainsRune_def strings_Split_def
      strings_HasPrefix_def strings_HasSuffix_def)

section \<open>C9: the expiry of a session token\<close>

text \<open>
  Claim C9, as amended. For every session token produced by \<open>signAPIToken\<close>, \<open>exp\<close> is the
  whole seconds since the epoch of the first clock reading plus the configured timeout
  (it is also the expiry the function returns), and \<open>orig_iat\<close> the whole seconds of the
  second clock reading; both are fixed in the token at issuance. When the two readings
  fall in the same second and the timeout is a whole number of seconds,
  \<open>exp = orig_iat + timeout\<close> in seconds. The codec is assumed faithful on the token.
\<close>

theorem session_expiry_claims:
  assumes sign: "signAPIToken lib a now1 now2 user = (expire, Inr tok)"
    and codec: "faithful lib
                  (NewWithClaims (SigningAlgo (jwt a))
                     [(claimUser, CString user), (claimExpiry, CNumber expire),
                      (claimOrigAt, CNumber (Unix now2))])
                  (Key (jwt a))"
  shows "expire = Unix (now1 + Timeout (jwt a))
       \<and> readClaim lib tok claimExpiry = Some (CNumber (Unix (now1 + Timeout (jwt a))))
       \<and> readClaim lib tok claimOrigAt = Some (CNumber (Unix now2))
       \<and> (Unix now1 = Unix now2 \<and> Timeout (jwt a) mod Second = 0
            \<longrightarrow> Unix (now1 + Timeout (jwt a)) = Unix now2 + Timeout (jwt a) div Second)"
proof -
  let ?cl = "[(claimUser, CString user), (claimExpiry, CNumber expire),
              (claimOrigAt, CNumber (Unix now2))]"
  from sign have e: "expire = Unix (now1 + Timeout (jwt a))"
    and s: "SignedString lib (NewWithClaims (SigningAlgo (jwt a)) ?cl) (Key (jwt a)) = Inr tok"
    by (auto simp: signAPIToken_def Let_def)
  from SignedString_parse[OF codec s] obtain sig where
    parse: "ParseUnverified lib tok =
              Inr (\<lparr>Raw = tok, Method = SigningAlgo (jwt a),
                    Header = Header (NewWithClaims (SigningAlgo (jwt a)) ?cl), Claims = ?cl,
                    Signature = [], Valid = False\<rparr>,
                   encodeJSON lib (Header (NewWithClaims (SigningAlgo (jwt a)) ?cl)),
                   encodeJSON lib ?cl, sig)"
    by blast
  have r1: "readClaim lib tok claimExpiry = Some (CNumber expire)"
    by (simp add: readClaim_def parse claim_names)
  have r2: "readClaim lib tok claimOrigAt = Some (CNumber (Unix now2))"
    by (simp add: readClaim_def parse claim_names)
  have arith: "Unix (now1 + d) = Unix now2 + d div Second"
    if "Unix now1 = Unix now2" "d mod Second = 0" for d
  proof -
    from that(2) have "Second dvd d" by (simp add: dvd_eq_mod_eq_0)
    then have "(now1 + d) div Second = now1 div Second + d div Second"
      by (rule div_plus_div_distrib_dvd_right)
    with that(1) show ?thesis by (simp add: Unix_def)
  qed
  from e r1 r2 arith[of "Timeout (jwt a)"] show ?thesis by simp
qed

text \<open>On the example deployment: two readings within the first second, timeout one hour.\<close>

theorem session_expiry_claims_witness:
  "signAPIToken example_lib example_service 500000000 700000000 ''alice''
     = (3600, Inr ''h512.session.mac512-secret-h512session'')
   \<and> Unix 500000000 = Unix 700000000 \<and> Timeout (jwt example_service) mod Second = 0
   \<and> readClaim example_lib ''h512.session.mac512-secret-h512session'' claimExpiry = Some (CNumber 3600)
   \<and> readClaim example_lib ''h512.session.mac512-secret-h512session'' claimOrigAt = Some (CNumber 0)
   \<and> (3600::int) = 0 + Timeout (jwt example_service) div Second"
proof -
  have 1: "signAPIToken example_lib example_service 500000000 700000000 ''alice''
             = (3600, Inr ''h512.session.mac512-secret-h512session'')"
    by (simp add: model_defs example_defs)
  have 2: "faithful example_lib
             (NewWithClaims (SigningAlgo (jwt example_service))
                [(claimUser, CString ''alice''), (claimExpiry, CNumber 3600),
                 (claimOrigAt, CNumber (Unix 700000000))])
             (Key (jwt example_service))"
    by (simp add: model_defs example_defs)
  have 3: "Unix 500000000 = Unix 700000000" "Timeout (jwt example_service) mod Second = 0"
    by (simp_all add: Unix_def Second_def example_defs)
  show ?thesis
    using session_expiry_claims[OF 1 2] 1 3
    by (simp add: Unix_def Second_def example_service_def)
qed

text \<open>
  Claim C9 as stated fails. With a timeout of 1.5 seconds the difference between \<open>exp\<close> and
  \<open>orig_iat\<close> is 2 for a token issued at 0.6 seconds and 1 for a token issued at 0.2
  seconds, so it is no fixed number of seconds. With a timeout of one hour and the two
  clock readings on both sides of a second boundary, \<open>exp\<close> is 3600 and \<open>orig_iat\<close> is 1.
\<close>

theorem session_expiry_not_iat_plus_timeout:
  "Timeout (jwt short_service) = 1500000000
   \<and> signAPIToken example_lib short_service 600000000 600000000 ''alice''
       = (2, Inr ''h512.two.mac512-secret-h512two'')
   \<and> readClaim example_lib ''h512.two.mac512-secret-h512two'' claimExpiry = Some (CNumber 2)
   \<and> readClaim example_lib ''h512.two.mac512-secret-h512two'' claimOrigAt = Some (CNumber 0)
   \<and> signAPIToken example_lib short_service 200000000 200000000 ''alice''
       = (1, Inr ''h512.one.mac512-secret-h512one'')
   \<and> readClaim example_lib ''h512.one.mac512-secret-h512one'' claimExpiry = Some (CNumber 1)
   \<and> readClaim example_lib ''h512.one.mac512-secret-h512one'' claimOrigAt = Some (CNumber 0)
   \<and> Timeout (jwt example_service) = 3600 * Second
   \<and> signAPIToken example_lib example_service 999999999 1000000000 ''alice''
       = (3600, Inr ''h512.late.mac512-secret-h512late'')
   \<and> readClaim example_lib ''h512.late.mac512-secret-h512late'' claimExpiry = Some (CNumber 3600)
   \<and> readClaim example_lib ''h512.late.mac512-secret-h512late'' claimOrigAt = Some (CNumber 1)"
  by (simp add: model_defs example_defs)

section \<open>C10: the identity lookup precedes the signature check\<close>

text \<open>
  Claim C10. In \<open>validate\<close> the claim check, the extraction of the identity claim and the
  lookup \<open>FindByUserName\<close> run inside the key function, which \<open>jwt.Parse\<close> calls before it
  verifies the signature. For every bearer token that is structurally well formed
  (\<open>ParseUnverified\<close> decodes it), whose claims pass the claim check at the clock reading of
  the key function and carry a non-empty user id, \<open>validate\<close> asks the identity store for
  that id (the lookup is recorded in \<open>lookups\<close>), whatever the signature segment \<open>p2\<close> is;
  when the signature does not verify under the configured key, the call is rejected only
  after that lookup.
\<close>

theorem lookup_precedes_signature_check:
  assumes md: "incomingMD ctx = Some meta"
              "map_of meta ''authorization'' = Some (bearerString # others)"
              "strings_Split bearerString ''Bearer '' = first # tokenString # rest"
    and wf: "ParseUnverified lib tokenString = Inr (token, p0, p1, p2)"
    and valid: "MapClaims_Valid (Claims token) now1 = []"
    and id: "map_of (Claims token) claimUser = Some (CString userID)" "userID \<noteq> []"
  shows "lookups (snd (validate lib a now1 now2 ctx db)) = lookups db @ [userID]
       \<and> (\<not> Verify lib (Method token) (p0 @ ''.'' @ p1) p2 (Key (jwt a))
            \<longrightarrow> validate lib a now1 now2 ctx db =
                  (Inl (Errorf Unauthenticated ''invalid key: %v''),
                   db\<lparr>lookups := lookups db @ [userID]\<rparr>))"
proof (cases "map_of (accounts db) userID")
  case None
  then have kf: "validate_keyFunc a now1 token \<lparr>claims_var = None, user_var = None, users = db\<rparr>
      = (Inl (Errorf Unauthenticated ''unable to find user associated with token''),
         \<lparr>claims_var = Some (Claims token), user_var = None,
          users = db\<lparr>lookups := lookups db @ [userID]\<rparr>\<rparr>)"
    using valid id by (simp add: validate_keyFunc_def FindByUserName_def Let_def)
  show ?thesis
    by (simp add: validate_def md Parse_def wf kf)
next
  case (Some u)
  then have kf: "validate_keyFunc a now1 token \<lparr>claims_var = None, user_var = None, users = db\<rparr>
      = (Inr (Key (jwt a)),
         \<lparr>claims_var = Some (Claims token), user_var = Some u,
          users = db\<lparr>lookups := lookups db @ [userID]\<rparr>\<rparr>)"
    using valid id by (simp add: validate_keyFunc_def FindByUserName_def Let_def)
  show ?thesis
    by (simp add: validate_def md Parse_def wf kf Let_def)
qed

text \<open>On the example deployment: a token of \<open>alice\<close> with a forged signature.\<close>

theorem lookup_precedes_signature_check_witness:
  "ParseUnverified example_lib ''h512.session.forged''
     = Inr (\<lparr>Raw = ''h512.session.forged'', Method = SigningMethodHMAC SHA512,
             Header = [(''typ'', CString ''JWT''), (''alg'', CString ''HS512'')],
             Claims = [(''id'', CString ''alice''), (''exp'', CNumber 3600), (''orig_iat'', CNumber 0)],
             Signature = [], Valid = False\<rparr>,
            ''h512'', ''session'', ''forged'')
   \<and> \<not> Verify example_lib (SigningMethodHMAC SHA512) (''h512'' @ ''.'' @ ''session'') ''forged''
         (Key (jwt example_service))
   \<and> validate example_lib example_service 0 0 (bearer_context ''Bearer h512.session.forged'')
       example_store
     = (Inl (Errorf Unauthenticated ''invalid key: %v''), example_store\<lparr>lookups := [''alice'']\<rparr>)"
proof -
  let ?cl = "[(''id'', CString ''alice''), (''exp'', CNumber 3600), (''orig_iat'', CNumber 0)]"
  let ?tk = "\<lparr>Raw = ''h512.session.forged'', Method = SigningMethodHMAC SHA512,
             Header = [(''typ'', CString ''JWT''), (''alg'', CString ''HS512'')],
             Claims = ?cl, Signature = [], Valid = False\<rparr>"
  have 1: "incomingMD (bearer_context ''Bearer h512.session.forged'')
             = Some [(''authorization'', [''Bearer h512.session.forged''])]"
    "map_of [(''authorization'', [''Bearer h512.session.forged''])] ''authorization''
       = Some (''Bearer h512.session.forged'' # [])"
    "strings_Split ''Bearer h512.session.forged'' ''Bearer '' = [] # ''h512.session.forged'' # []"
    by (simp_all add: example_defs strings_Split_def strings_HasPrefix_def)
  have 2: "ParseUnverified example_lib ''h512.session.forged'' = Inr (?tk, ''h512'', ''session'', ''forged'')"
    by (simp add: model_defs example_defs)
  have 3: "MapClaims_Valid (Claims ?tk) 0 = []"
    by (simp add: model_defs)
  have 4: "map_of (Claims ?tk) claimUser = Some (CString ''alice'')" "''alice'' \<noteq> []"
    by (simp_all add: claim_names)
  have 5: "\<not> Verify example_lib (Method ?tk) (''h512'' @ ''.'' @ ''session'') ''forged''
         (Key (jwt example_service))"
    by (simp add: example_defs)
  show ?thesis
    using lookup_precedes_signature_check[OF 1 2 3 4, of example_service 0 example_store] 2 5
    by (simp add: example_defs)
qed

end
